theory Spec2Isabelle
  imports Complex_Main
begin

section \<open>The horizontal dock of the oscilloscope (HorizontalDock.cpp)\<close>

text \<open>
  The dock binds three spin-boxes (samplerate, timebase, calibration frequency) and one
  combo-box (display format) to the fields of \<^verbatim>\<open>scope->horizontal\<close>.
\<close>

subsection \<open>Numbers\<close>

text \<open>
  A \<^verbatim>\<open>double\<close> is a finite number, read exactly as a real, an infinity or NaN; the two
  zeros are one value. Comparisons are those of IEEE 754: exact on numbers, false
  whenever NaN takes part. \<^verbatim>\<open>floor\<close> is exact. What rounds is not computed here:
  multiplication, division and the library functions \<^verbatim>\<open>log10\<close> and \<^verbatim>\<open>pow\<close> are
  parameters of the model, gathered in an \<open>arith\<close>, and every property is proved for
  every arithmetic.

  The lists of steps hold finite rates and factors and are lists of reals.
\<close>

datatype double = Finite real | PosInf | NegInf | NaN

fun dlt :: "double \<Rightarrow> double \<Rightarrow> bool" where
  "dlt (Finite a) (Finite b) = (a < b)"
| "dlt (Finite a) PosInf = True"
| "dlt NegInf (Finite b) = True"
| "dlt NegInf PosInf = True"
| "dlt x y = False"

definition dle :: "double \<Rightarrow> double \<Rightarrow> bool" where
  "dle x y = (x \<noteq> NaN \<and> y \<noteq> NaN \<and> (x = y \<or> dlt x y))"

fun dfloor :: "double \<Rightarrow> double" where
  "dfloor (Finite a) = Finite (real_of_int \<lfloor>a\<rfloor>)"
| "dfloor x = x"

record arith =
  fp_mul :: "double \<Rightarrow> double \<Rightarrow> double"
  fp_div :: "double \<Rightarrow> double \<Rightarrow> double"
  fp_log10 :: "double \<Rightarrow> double"
  fp_pow :: "double \<Rightarrow> double \<Rightarrow> double"

subsection \<open>Data\<close>

text \<open>
  Widgets. The classes \<^verbatim>\<open>SiSpinBox\<close> and \<^verbatim>\<open>QComboBox\<close> are not part of the
  source file. They are modelled as records of the properties the dock sets and reads.
  A setter of the steps or of the mode stores its argument. A setter of the value or
  of a limit stores its argument and keeps the value within the limits; when that
  changes the value, the change is announced to the connected slot of the dock unless
  the signals of the widget are blocked. What the toolkit does beyond that (repairing
  an inverted range, rounding to the displayed decimals) is outside the model.
\<close>

record SiSpinBox =
  sb_minimum :: double
  sb_maximum :: double
  sb_value :: double
  sb_steps :: "real list"
  sb_mode :: int
  sb_signalsBlocked :: bool

record QComboBox =
  cb_currentIndex :: int
  cb_signalsBlocked :: bool

text \<open>\<^verbatim>\<open>scope->horizontal\<close>: the shared settings. \<^verbatim>\<open>Dso::GraphFormat\<close> is an
  unscoped enumeration; \<^verbatim>\<open>Dso::GraphFormat( index )\<close> converts any integer, so a
  format is an \<^typ>\<open>int\<close>.\<close>

record DsoSettingsScopeHorizontal =
  samplerate :: double
  timebase :: double
  maxTimebase :: double
  format :: int
  calfreq :: double

text \<open>The signals of the dock.\<close>

datatype signal =
  samplerateChanged double
| timebaseChanged double
| formatChanged int
| calfreqChanged double

text \<open>The effects of the dock, in the order they happen: an assignment to a field of
  \<^verbatim>\<open>scope->horizontal\<close>, a call of a property setter of a widget, an emitted signal.\<close>

datatype setting = Samplerate double | Timebase double | Format int | Calfreq double

datatype spinbox = SamplerateBox | TimebaseBox | CalfreqBox

datatype effect =
  Write setting
| SetValue spinbox double
| SetMinimum spinbox double
| SetMaximum spinbox double
| SetSteps spinbox "real list"
| SetMode spinbox int
| SetCurrentIndex int
| Emit signal

record HorizontalDock =
  scope :: DsoSettingsScopeHorizontal
  samplerateSiSpinBox :: SiSpinBox
  timebaseSiSpinBox :: SiSpinBox
  calfreqSiSpinBox :: SiSpinBox
  formatComboBox :: QComboBox
  timebaseSteps :: "real list"
  samplerateSteps :: "real list"
  connected :: bool
  trace :: "effect list"

subsection \<open>Widgets\<close>

fun spin :: "spinbox \<Rightarrow> HorizontalDock \<Rightarrow> SiSpinBox" where
  "spin SamplerateBox d = samplerateSiSpinBox d"
| "spin TimebaseBox d = timebaseSiSpinBox d"
| "spin CalfreqBox d = calfreqSiSpinBox d"

fun spin_update :: "spinbox \<Rightarrow> (SiSpinBox \<Rightarrow> SiSpinBox) \<Rightarrow> HorizontalDock \<Rightarrow> HorizontalDock" where
  "spin_update SamplerateBox f d = d\<lparr>samplerateSiSpinBox := f (samplerateSiSpinBox d)\<rparr>"
| "spin_update TimebaseBox f d = d\<lparr>timebaseSiSpinBox := f (timebaseSiSpinBox d)\<rparr>"
| "spin_update CalfreqBox f d = d\<lparr>calfreqSiSpinBox := f (calfreqSiSpinBox d)\<rparr>"

definition logged :: "effect \<Rightarrow> HorizontalDock \<Rightarrow> HorizontalDock" where
  "logged e d = d\<lparr>trace := trace d @ [e]\<rparr>"

definition spin_setSteps :: "spinbox \<Rightarrow> real list \<Rightarrow> HorizontalDock \<Rightarrow> HorizontalDock" where
  "spin_setSteps w xs d = logged (SetSteps w xs) (spin_update w (\<lambda>b. b\<lparr>sb_steps := xs\<rparr>) d)"

definition spin_setMode :: "spinbox \<Rightarrow> int \<Rightarrow> HorizontalDock \<Rightarrow> HorizontalDock" where
  "spin_setMode w m d = logged (SetMode w m) (spin_update w (\<lambda>b. b\<lparr>sb_mode := m\<rparr>) d)"

text \<open>\<^verbatim>\<open>blockSignals\<close>, and what a \<^verbatim>\<open>QSignalBlocker\<close> does: it blocks the signals of
  the widget when it is made and puts the former state back when it goes out of scope.\<close>

definition spin_blockSignals :: "spinbox \<Rightarrow> bool \<Rightarrow> HorizontalDock \<Rightarrow> HorizontalDock" where
  "spin_blockSignals w b d = spin_update w (\<lambda>x. x\<lparr>sb_signalsBlocked := b\<rparr>) d"

definition combo_blockSignals :: "bool \<Rightarrow> HorizontalDock \<Rightarrow> HorizontalDock" where
  "combo_blockSignals b d = d\<lparr>formatComboBox := (formatComboBox d)\<lparr>cb_signalsBlocked := b\<rparr>\<rparr>"

text \<open>The value a spin-box keeps of a value it is given: below the minimum the minimum,
  above the maximum the maximum. A box is \<open>limited\<close> when its own value has been
  treated so.\<close>

definition bound :: "SiSpinBox \<Rightarrow> double \<Rightarrow> double" where
  "bound b v = (let v1 = (if dlt v (sb_minimum b) then sb_minimum b else v)
                in if dlt (sb_maximum b) v1 then sb_maximum b else v1)"

definition limited :: "SiSpinBox \<Rightarrow> SiSpinBox" where
  "limited b = b\<lparr>sb_value := bound b (sb_value b)\<rparr>"

text \<open>A change of the value or of a limit of the spin-box \<open>w\<close>: the change \<open>f\<close> is
  made, the value is limited, the call is logged, and if the value is another than
  before, the signals are not blocked and the slots are connected, \<open>slot\<close> runs with
  the new value. \<open>slot\<close> is the slot that the constructor connects to
  \<^verbatim>\<open>valueChanged\<close> of \<open>w\<close>.\<close>

definition spin_change ::
  "(double \<Rightarrow> HorizontalDock \<Rightarrow> HorizontalDock) \<Rightarrow> effect \<Rightarrow> spinbox \<Rightarrow> (SiSpinBox \<Rightarrow> SiSpinBox)
     \<Rightarrow> HorizontalDock \<Rightarrow> HorizontalDock" where
  "spin_change slot e w f d =
     (let b = spin w d;
          b1 = limited (f b);
          d1 = logged e (spin_update w (\<lambda>x. b1) d)
      in if sb_value b1 \<noteq> sb_value b \<and> \<not> sb_signalsBlocked b \<and> connected d
         then slot (sb_value b1) d1 else d1)"

subsection \<open>The slots of the samplerate, the format and the calibration frequency\<close>

fun assign :: "setting \<Rightarrow> DsoSettingsScopeHorizontal \<Rightarrow> DsoSettingsScopeHorizontal" where
  "assign (Samplerate v) h = h\<lparr>samplerate := v\<rparr>"
| "assign (Timebase v) h = h\<lparr>timebase := v\<rparr>"
| "assign (Format v) h = h\<lparr>format := v\<rparr>"
| "assign (Calfreq v) h = h\<lparr>calfreq := v\<rparr>"

definition store :: "setting \<Rightarrow> HorizontalDock \<Rightarrow> HorizontalDock" where
  "store x d = logged (Write x) (d\<lparr>scope := assign x (scope d)\<rparr>)"

definition emit :: "signal \<Rightarrow> HorizontalDock \<Rightarrow> HorizontalDock" where
  "emit g d = logged (Emit g) d"

definition samplerateSelected :: "double \<Rightarrow> HorizontalDock \<Rightarrow> HorizontalDock" where
  "samplerateSelected v d = emit (samplerateChanged v) (store (Samplerate v) d)"

definition formatSelected :: "int \<Rightarrow> HorizontalDock \<Rightarrow> HorizontalDock" where
  "formatSelected index d =
     (let d1 = store (Format index) d in emit (formatChanged (format (scope d1))) d1)"

definition calfreqSelected :: "double \<Rightarrow> HorizontalDock \<Rightarrow> HorizontalDock" where
  "calfreqSelected v d = emit (calfreqChanged v) (store (Calfreq v) d)"

subsection \<open>The limits of the samplerate\<close>

text \<open>The limit setters of the samplerate spin-box; its \<^verbatim>\<open>valueChanged\<close> is connected
  to \<^verbatim>\<open>samplerateSelected\<close>.\<close>

definition samplerate_setMinimum :: "double \<Rightarrow> HorizontalDock \<Rightarrow> HorizontalDock" where
  "samplerate_setMinimum m d =
     spin_change samplerateSelected (SetMinimum SamplerateBox m) SamplerateBox
       (\<lambda>b. b\<lparr>sb_minimum := m\<rparr>) d"

definition samplerate_setMaximum :: "double \<Rightarrow> HorizontalDock \<Rightarrow> HorizontalDock" where
  "samplerate_setMaximum m d =
     spin_change samplerateSelected (SetMaximum SamplerateBox m) SamplerateBox
       (\<lambda>b. b\<lparr>sb_maximum := m\<rparr>) d"

text \<open>\<^verbatim>\<open>bool( minimum )\<close> of a double is false for zero only.\<close>

definition setSamplerateLimits :: "double \<Rightarrow> double \<Rightarrow> HorizontalDock \<Rightarrow> HorizontalDock" where
  "setSamplerateLimits minimum maximum d =
     (let was = sb_signalsBlocked (spin SamplerateBox d);
          d1 = spin_blockSignals SamplerateBox True d;
          d2 = (if minimum \<noteq> Finite 0 then samplerate_setMinimum minimum d1 else d1);
          d3 = (if maximum \<noteq> Finite 0 then samplerate_setMaximum maximum d2 else d2)
      in spin_blockSignals SamplerateBox was d3)"

text \<open>One round of the loop of \<^verbatim>\<open>calculateSamplerateSteps\<close>, on the pair (min, max).
  The product is the rounded product of the arithmetic.\<close>

definition rate_step :: "arith \<Rightarrow> real list \<Rightarrow> double \<Rightarrow> real \<times> real \<Rightarrow> nat \<Rightarrow> real \<times> real" where
  "rate_step ar steps tb mm ix =
     (let sRate = steps ! ix;
          mn = (if int ix < int (length steps) - 1 \<and> dle (fp_mul ar (Finite sRate) tb) (Finite 10)
                then sRate else fst mm);
          mx = (if ix \<noteq> 0 \<and> dle (fp_mul ar (Finite sRate) tb) (Finite 1000)
                then sRate else snd mm)
      in (mn, mx))"

text \<open>The pair (min, max) the function hands to \<^verbatim>\<open>setSamplerateLimits\<close>, for a list that
  is not empty: the loop over every index, then the minimum raised to
  \<^verbatim>\<open>qMin( 10e3, max )\<close>.\<close>

definition samplerate_range :: "arith \<Rightarrow> real list \<Rightarrow> double \<Rightarrow> real \<times> real" where
  "samplerate_range ar steps tb =
     (let mm = foldl (rate_step ar steps tb) (steps ! 0, steps ! 0) [0..<length steps];
          mx = snd mm;
          mn = max (fst mm) (min 10000 mx)
      in (mn, mx))"

definition calculateSamplerateSteps :: "arith \<Rightarrow> double \<Rightarrow> HorizontalDock \<Rightarrow> HorizontalDock" where
  "calculateSamplerateSteps ar tb d =
     (if length (samplerateSteps d) \<noteq> 0
      then (let r = samplerate_range ar (samplerateSteps d) tb
            in setSamplerateLimits (Finite (fst r)) (Finite (snd r)) d)
      else d)"

subsection \<open>The slot of the timebase\<close>

definition timebaseSelected :: "arith \<Rightarrow> double \<Rightarrow> HorizontalDock \<Rightarrow> HorizontalDock" where
  "timebaseSelected ar tb d =
     emit (timebaseChanged tb) (calculateSamplerateSteps ar tb (store (Timebase tb) d))"

subsection \<open>Values and limits of the widgets, and the signals they send\<close>

text \<open>The connections the constructor makes: \<^verbatim>\<open>valueChanged\<close> of each spin-box and
  \<^verbatim>\<open>currentIndexChanged\<close> of the combo-box to the slot of the dock.\<close>

fun valueChanged :: "arith \<Rightarrow> spinbox \<Rightarrow> double \<Rightarrow> HorizontalDock \<Rightarrow> HorizontalDock" where
  "valueChanged ar SamplerateBox v d = samplerateSelected v d"
| "valueChanged ar TimebaseBox v d = timebaseSelected ar v d"
| "valueChanged ar CalfreqBox v d = calfreqSelected v d"

definition spin_setValue :: "arith \<Rightarrow> spinbox \<Rightarrow> double \<Rightarrow> HorizontalDock \<Rightarrow> HorizontalDock" where
  "spin_setValue ar w v d =
     spin_change (valueChanged ar w) (SetValue w v) w (\<lambda>b. b\<lparr>sb_value := v\<rparr>) d"

definition spin_setMinimum :: "arith \<Rightarrow> spinbox \<Rightarrow> double \<Rightarrow> HorizontalDock \<Rightarrow> HorizontalDock" where
  "spin_setMinimum ar w m d =
     spin_change (valueChanged ar w) (SetMinimum w m) w (\<lambda>b. b\<lparr>sb_minimum := m\<rparr>) d"

definition spin_setMaximum :: "arith \<Rightarrow> spinbox \<Rightarrow> double \<Rightarrow> HorizontalDock \<Rightarrow> HorizontalDock" where
  "spin_setMaximum ar w m d =
     spin_change (valueChanged ar w) (SetMaximum w m) w (\<lambda>b. b\<lparr>sb_maximum := m\<rparr>) d"

definition combo_setCurrentIndex :: "int \<Rightarrow> HorizontalDock \<Rightarrow> HorizontalDock" where
  "combo_setCurrentIndex i d =
     (let c = formatComboBox d;
          d1 = logged (SetCurrentIndex i) (d\<lparr>formatComboBox := c\<lparr>cb_currentIndex := i\<rparr>\<rparr>)
      in if i \<noteq> cb_currentIndex c \<and> \<not> cb_signalsBlocked c \<and> connected d
         then formatSelected i d1 else d1)"

subsection \<open>The setters\<close>

text \<open>\<^verbatim>\<open>pow( 10, floor( log10( x ) ) )\<close>.\<close>

definition decade :: "arith \<Rightarrow> double \<Rightarrow> double" where
  "decade ar x = fp_pow ar (Finite 10) (dfloor (fp_log10 ar x))"

text \<open>The loop of \<^verbatim>\<open>setTimebase\<close> over the neighbours of the list of steps: the first
  step with \<open>step \<le> vNorm < next step\<close>, where the loop calls \<^verbatim>\<open>setValue\<close> and breaks.\<close>

fun step_of :: "real list \<Rightarrow> double \<Rightarrow> real option" where
  "step_of (a # b # xs) vNorm =
     (if dle (Finite a) vNorm \<and> dlt vNorm (Finite b) then Some a else step_of (b # xs) vNorm)"
| "step_of xs vNorm = None"

text \<open>The blocker of \<^verbatim>\<open>setSamplerate\<close> is first on the timebase box and then assigned a
  blocker of the samplerate box: the assignment blocks the samplerate box and
  releases the timebase box.\<close>

definition setSamplerate :: "arith \<Rightarrow> double \<Rightarrow> HorizontalDock \<Rightarrow> double \<times> HorizontalDock" where
  "setSamplerate ar v d =
     (let wasT = sb_signalsBlocked (spin TimebaseBox d);
          d1 = spin_blockSignals TimebaseBox True d;
          d2 = spin_setMaximum ar TimebaseBox (maxTimebase (scope d1)) d1;
          wasS = sb_signalsBlocked (spin SamplerateBox d2);
          d3 = spin_blockSignals SamplerateBox True d2;
          d4 = spin_blockSignals TimebaseBox wasT d3;
          d5 = spin_setValue ar SamplerateBox v d4
      in (sb_value (spin SamplerateBox d5), spin_blockSignals SamplerateBox wasS d5))"

definition setTimebase :: "arith \<Rightarrow> double \<Rightarrow> HorizontalDock \<Rightarrow> double \<times> HorizontalDock" where
  "setTimebase ar tb d =
     (let was = sb_signalsBlocked (spin TimebaseBox d);
          d1 = spin_blockSignals TimebaseBox True d;
          dec = decade ar tb;
          vNorm = fp_div ar tb dec;
          d2 = (case step_of (timebaseSteps d1) vNorm of
                  Some st \<Rightarrow> spin_setValue ar TimebaseBox (fp_mul ar dec (Finite st)) d1
                | None \<Rightarrow> d1);
          d3 = calculateSamplerateSteps ar tb d2
      in (sb_value (spin TimebaseBox d3), spin_blockSignals TimebaseBox was d3))"

text \<open>The enumerators \<^verbatim>\<open>Dso::GraphFormat::TY\<close> and \<^verbatim>\<open>Dso::GraphFormat::XY\<close> are
  declared in a header that is not part of the source file: they are parameters.\<close>

definition setFormat :: "int \<Rightarrow> int \<Rightarrow> int \<Rightarrow> HorizontalDock \<Rightarrow> int \<times> HorizontalDock" where
  "setFormat TY XY fmt d =
     (let was = cb_signalsBlocked (formatComboBox d);
          d1 = combo_blockSignals True d
      in if TY \<le> fmt \<and> fmt \<le> XY
         then (fmt, combo_blockSignals was (combo_setCurrentIndex fmt d1))
         else (- 1, combo_blockSignals was d1))"

definition setCalfreq :: "arith \<Rightarrow> double \<Rightarrow> HorizontalDock \<Rightarrow> double \<times> HorizontalDock" where
  "setCalfreq ar v d =
     (let was = sb_signalsBlocked (spin CalfreqBox d);
          d1 = spin_blockSignals CalfreqBox True d;
          d2 = spin_setValue ar CalfreqBox v d1
      in (sb_value (spin CalfreqBox d2), spin_blockSignals CalfreqBox was d2))"

text \<open>\<^verbatim>\<open>loadSettings\<close> is given the settings object the dock shares: each setter reads
  the field when its turn comes.\<close>

definition loadSettings :: "arith \<Rightarrow> int \<Rightarrow> int \<Rightarrow> HorizontalDock \<Rightarrow> HorizontalDock" where
  "loadSettings ar TY XY d =
     (let d1 = snd (setSamplerate ar (samplerate (scope d)) d);
          d2 = snd (setTimebase ar (timebase (scope d1)) d1);
          d3 = snd (setFormat TY XY (format (scope d2)) d2)
      in snd (setCalfreq ar (calfreq (scope d3)) d3))"

text \<open>\<^verbatim>\<open>first()\<close> and \<^verbatim>\<open>last()\<close> of an empty list are undefined in the source (an
  assertion of the toolkit): the model stops with \<open>EmptyList\<close>.\<close>

datatype fault = EmptyList

definition setSamplerateSteps ::
  "arith \<Rightarrow> int \<Rightarrow> real list \<Rightarrow> HorizontalDock \<Rightarrow> fault + HorizontalDock" where
  "setSamplerateSteps ar m steps d =
     (if steps = [] then Inl EmptyList
      else
        (let d1 = d\<lparr>samplerateSteps := steps\<rparr>;
             wasS = sb_signalsBlocked (spin SamplerateBox d1);
             d2 = spin_blockSignals SamplerateBox True d1;
             d3 = spin_setMode SamplerateBox m d2;
             d4 = spin_setSteps SamplerateBox steps d3;
             d5 = spin_setMinimum ar SamplerateBox (Finite (hd steps)) d4;
             d6 = spin_setMaximum ar SamplerateBox (Finite (last steps)) d5;
             wasT = sb_signalsBlocked (spin TimebaseBox d6);
             d7 = spin_blockSignals TimebaseBox True d6;
             d8 = spin_setMinimum ar TimebaseBox
                    (decade ar (fp_div ar (Finite 1) (Finite (last steps)))) d7;
             d9 = calculateSamplerateSteps ar (sb_value (spin TimebaseBox d8)) d8
         in Inr (spin_blockSignals SamplerateBox wasS (spin_blockSignals TimebaseBox wasT d9))))"

subsection \<open>The constructor\<close>

text \<open>The state of a new \<^verbatim>\<open>SiSpinBox\<close> and of the filled combo-box is decided by classes
  that are not part of the source file: both are parameters. The labels and the layout
  hold no state the dock reads. The settings are loaded before the slots are connected.
  The calibration steps are \<^verbatim>\<open>spec->calfreqSteps\<close>; \<^verbatim>\<open>first()\<close> of an empty list is
  undefined as above.\<close>

definition construct ::
  "arith \<Rightarrow> int \<Rightarrow> int \<Rightarrow> SiSpinBox \<Rightarrow> QComboBox \<Rightarrow> DsoSettingsScopeHorizontal \<Rightarrow> real list
     \<Rightarrow> fault + HorizontalDock" where
  "construct ar TY XY fresh combo settings calfreqSteps =
     (if calfreqSteps = [] then Inl EmptyList
      else
        (let d0 = \<lparr>scope = settings, samplerateSiSpinBox = fresh, timebaseSiSpinBox = fresh,
                   calfreqSiSpinBox = fresh, formatComboBox = combo, timebaseSteps = [],
                   samplerateSteps = [], connected = False, trace = []\<rparr>;
             d1 = spin_setMinimum ar SamplerateBox (Finite 1) d0;
             d2 = spin_setMaximum ar SamplerateBox (Finite 100000000) d1;
             d3 = d2\<lparr>timebaseSteps := [1, 2, 5, 10]\<rparr>;
             d4 = spin_setSteps TimebaseBox (timebaseSteps d3) d3;
             d5 = spin_setMinimum ar TimebaseBox (Finite (1 / 1000000000)) d4;
             d6 = spin_setMaximum ar TimebaseBox (Finite 1000) d5;
             d7 = spin_setSteps CalfreqBox calfreqSteps d6;
             d8 = spin_setMinimum ar CalfreqBox (Finite (hd calfreqSteps)) d7;
             d9 = spin_setMaximum ar CalfreqBox (Finite (last calfreqSteps)) d8;
             d10 = loadSettings ar TY XY d9
         in Inr (d10\<lparr>connected := True\<rparr>)))"

subsection \<open>An arithmetic and a state of the dock\<close>

text \<open>The arithmetic without rounding: finite results are exact, the results at zero, at
  the infinities and at NaN are those of IEEE 754 and of the C library. \<^verbatim>\<open>pow\<close> is
  given for a base above 1, the only one the dock uses, and is NaN for another base.\<close>

fun exact_mul :: "double \<Rightarrow> double \<Rightarrow> double" where
  "exact_mul (Finite a) (Finite b) = Finite (a * b)"
| "exact_mul x y =
     (if x = NaN \<or> y = NaN \<or> x = Finite 0 \<or> y = Finite 0 then NaN
      else if dlt (Finite 0) x = dlt (Finite 0) y then PosInf else NegInf)"

fun exact_div :: "double \<Rightarrow> double \<Rightarrow> double" where
  "exact_div (Finite a) (Finite b) =
     (if b \<noteq> 0 then Finite (a / b)
      else if a = 0 then NaN else if 0 < a then PosInf else NegInf)"
| "exact_div (Finite a) y = (if y = NaN then NaN else Finite 0)"
| "exact_div x (Finite b) =
     (if x = NaN then NaN else if (x = PosInf) = (0 \<le> b) then PosInf else NegInf)"
| "exact_div x y = NaN"

fun exact_log10 :: "double \<Rightarrow> double" where
  "exact_log10 (Finite a) = (if 0 < a then Finite (log 10 a) else if a = 0 then NegInf else NaN)"
| "exact_log10 PosInf = PosInf"
| "exact_log10 x = NaN"

fun exact_pow :: "double \<Rightarrow> double \<Rightarrow> double" where
  "exact_pow (Finite a) (Finite b) = (if 1 < a then Finite (a powr b) else NaN)"
| "exact_pow (Finite a) PosInf = (if 1 < a then PosInf else NaN)"
| "exact_pow (Finite a) NegInf = (if 1 < a then Finite 0 else NaN)"
| "exact_pow x y = NaN"

definition exact :: arith where
  "exact = \<lparr>fp_mul = exact_mul, fp_div = exact_div, fp_log10 = exact_log10, fp_pow = exact_pow\<rparr>"

text \<open>A dock of a device with four samplerates, at one millisecond per division.\<close>

definition example_dock :: HorizontalDock where
  "example_dock =
     \<lparr>scope = \<lparr>samplerate = Finite 100000, timebase = Finite (1 / 1000), maxTimebase = Finite 1,
               format = 0, calfreq = Finite 1000\<rparr>,
      samplerateSiSpinBox = \<lparr>sb_minimum = Finite 10000, sb_maximum = Finite 100000,
               sb_value = Finite 100000, sb_steps = [10000, 20000, 50000, 100000], sb_mode = 0,
               sb_signalsBlocked = False\<rparr>,
      timebaseSiSpinBox = \<lparr>sb_minimum = Finite (1 / 100000), sb_maximum = Finite 1000,
               sb_value = Finite (1 / 1000), sb_steps = [1, 2, 5, 10], sb_mode = 0,
               sb_signalsBlocked = False\<rparr>,
      calfreqSiSpinBox = \<lparr>sb_minimum = Finite 50, sb_maximum = Finite 10000,
               sb_value = Finite 1000, sb_steps = [50, 100, 1000, 10000], sb_mode = 0,
               sb_signalsBlocked = False\<rparr>,
      formatComboBox = \<lparr>cb_currentIndex = 0, cb_signalsBlocked = False\<rparr>,
      timebaseSteps = [1, 2, 5, 10],
      samplerateSteps = [10000, 20000, 50000, 100000],
      connected = True,
      trace = []\<rparr>"

section \<open>Vocabulary of the properties\<close>

text \<open>The signals and the assignments to the settings that a trace holds, in order.\<close>

fun signals_of :: "effect list \<Rightarrow> signal list" where
  "signals_of [] = []"
| "signals_of (Emit g # es) = g # signals_of es"
| "signals_of (e # es) = signals_of es"

fun writes_of :: "effect list \<Rightarrow> setting list" where
  "writes_of [] = []"
| "writes_of (Write x # es) = x # writes_of es"
| "writes_of (e # es) = writes_of es"

text \<open>The setter calls that \<^verbatim>\<open>setSamplerateLimits( mn, mx )\<close> makes, and those that the
  recalculation of the range makes for a list of steps and a timebase.\<close>

definition limit_calls :: "double \<Rightarrow> double \<Rightarrow> effect list" where
  "limit_calls mn mx =
     (if mn = Finite 0 then [] else [SetMinimum SamplerateBox mn]) @
     (if mx = Finite 0 then [] else [SetMaximum SamplerateBox mx])"

definition range_calls :: "arith \<Rightarrow> real list \<Rightarrow> double \<Rightarrow> effect list" where
  "range_calls ar steps tb =
     (if steps = [] then []
      else limit_calls (Finite (fst (samplerate_range ar steps tb)))
             (Finite (snd (samplerate_range ar steps tb))))"

text \<open>A spin-box after \<^verbatim>\<open>setSamplerateLimits( mn, mx )\<close>: a limit that is not zero is
  stored and the value limited, the minimum first.\<close>

definition with_limits :: "double \<Rightarrow> double \<Rightarrow> SiSpinBox \<Rightarrow> SiSpinBox" where
  "with_limits mn mx b =
     (let b1 = (if mn = Finite 0 then b else limited (b\<lparr>sb_minimum := mn\<rparr>))
      in if mx = Finite 0 then b1 else limited (b1\<lparr>sb_maximum := mx\<rparr>))"

text \<open>The samplerate spin-box after the recalculation of the range.\<close>

definition with_range :: "arith \<Rightarrow> real list \<Rightarrow> double \<Rightarrow> SiSpinBox \<Rightarrow> SiSpinBox" where
  "with_range ar steps tb b =
     (if steps = [] then b
      else with_limits (Finite (fst (samplerate_range ar steps tb)))
             (Finite (snd (samplerate_range ar steps tb))) b)"

text \<open>A step from \<open>d\<close> to \<open>d'\<close> is quiet when the settings are the same and the trace
  has gained neither an assignment to a setting nor a signal.\<close>

definition quiet :: "HorizontalDock \<Rightarrow> HorizontalDock \<Rightarrow> bool" where
  "quiet d d' =
     (scope d' = scope d \<and> writes_of (trace d') = writes_of (trace d) \<and>
      signals_of (trace d') = signals_of (trace d))"

text \<open>The loop of \<^verbatim>\<open>calculateSamplerateSteps\<close> seen on one of its two variables: the
  step at the last index of the list of indices that satisfies the test, the start
  value when none does.\<close>

definition last_match :: "real list \<Rightarrow> (nat \<Rightarrow> bool) \<Rightarrow> real \<Rightarrow> nat list \<Rightarrow> real" where
  "last_match steps P b ixs = foldl (\<lambda>acc i. if P i then steps ! i else acc) b ixs"

text \<open>The range as the specification words it: the maximum is the largest step at an
  index from 1 on with at most 1000 samples per division, the minimum the largest step
  at an index below the last with at most 10 samples per division, each the first
  step when there is none; the minimum is raised to the smaller of 10 kS/s and the
  maximum when it is below it. The samples per division are the product the code
  computes.\<close>

definition spec_maximum :: "arith \<Rightarrow> real list \<Rightarrow> double \<Rightarrow> real" where
  "spec_maximum ar steps tb =
     (let S = {steps ! i | i. 1 \<le> i \<and> i < length steps \<and>
                   dle (fp_mul ar (Finite (steps ! i)) tb) (Finite 1000)}
      in if S = {} then steps ! 0 else Max S)"

definition spec_minimum :: "arith \<Rightarrow> real list \<Rightarrow> double \<Rightarrow> real" where
  "spec_minimum ar steps tb =
     (let S = {steps ! i | i. i < length steps - 1 \<and>
                   dle (fp_mul ar (Finite (steps ! i)) tb) (Finite 10)}
      in if S = {} then steps ! 0 else Max S)"

definition spec_range :: "arith \<Rightarrow> real list \<Rightarrow> double \<Rightarrow> real \<times> real" where
  "spec_range ar steps tb =
     (let mx = spec_maximum ar steps tb;
          mn = spec_minimum ar steps tb
      in (if mn < min 10000 mx then min 10000 mx else mn, mx))"

section \<open>Lemmas\<close>

subsection \<open>Traces, limits and slots\<close>

lemma signals_of_append [simp]: "signals_of (xs @ ys) = signals_of xs @ signals_of ys"
  by (induction xs rule: signals_of.induct) simp_all

lemma writes_of_append [simp]: "writes_of (xs @ ys) = writes_of xs @ writes_of ys"
  by (induction xs rule: writes_of.induct) simp_all

lemmas widget_defs = logged_def spin_setSteps_def spin_setMode_def spin_blockSignals_def
  combo_blockSignals_def

lemma bound_flag [simp]: "bound (b\<lparr>sb_signalsBlocked := x\<rparr>) v = bound b v"
  by (simp add: bound_def Let_def)

lemma limited_flag:
  "limited (b\<lparr>sb_signalsBlocked := x\<rparr>) = (limited b)\<lparr>sb_signalsBlocked := x\<rparr>"
  by (simp add: limited_def)

lemma limited_flag_minimum [simp]:
  "limited (b\<lparr>sb_signalsBlocked := x, sb_minimum := m\<rparr>) =
     (limited (b\<lparr>sb_minimum := m\<rparr>))\<lparr>sb_signalsBlocked := x\<rparr>"
  by (simp add: limited_def bound_def Let_def)

lemma limited_flag_maximum [simp]:
  "limited (b\<lparr>sb_signalsBlocked := x, sb_maximum := m\<rparr>) =
     (limited (b\<lparr>sb_maximum := m\<rparr>))\<lparr>sb_signalsBlocked := x\<rparr>"
  by (simp add: limited_def bound_def Let_def)

lemma limited_flag_value [simp]:
  "limited (b\<lparr>sb_signalsBlocked := x, sb_value := m\<rparr>) =
     (limited (b\<lparr>sb_value := m\<rparr>))\<lparr>sb_signalsBlocked := x\<rparr>"
  by (simp add: limited_def bound_def Let_def)

lemma limited_fields [simp]:
  "sb_minimum (limited b) = sb_minimum b"
  "sb_maximum (limited b) = sb_maximum b"
  "sb_steps (limited b) = sb_steps b"
  "sb_mode (limited b) = sb_mode b"
  "sb_signalsBlocked (limited b) = sb_signalsBlocked b"
  "sb_value (limited b) = bound b (sb_value b)"
  by (simp_all add: limited_def)

lemma blocked_change:
  "sb_signalsBlocked (spin w d) \<Longrightarrow>
   spin_change slot e w f d = logged e (spin_update w (\<lambda>x. limited (f (spin w d))) d)"
  by (simp add: spin_change_def Let_def)

lemma unconnected_change:
  "\<not> connected d \<Longrightarrow>
   spin_change slot e w f d = logged e (spin_update w (\<lambda>x. limited (f (spin w d))) d)"
  by (simp add: spin_change_def Let_def)

lemma with_limits_fields [simp]:
  "sb_minimum (with_limits a b x) = (if a = Finite 0 then sb_minimum x else a)"
  "sb_maximum (with_limits a b x) = (if b = Finite 0 then sb_maximum x else b)"
  "sb_steps (with_limits a b x) = sb_steps x"
  "sb_mode (with_limits a b x) = sb_mode x"
  "sb_signalsBlocked (with_limits a b x) = sb_signalsBlocked x"
  by (simp_all add: with_limits_def Let_def)

lemma setSamplerateLimits_explicit:
  "setSamplerateLimits a b d =
     d\<lparr>samplerateSiSpinBox := with_limits a b (samplerateSiSpinBox d),
       trace := trace d @ limit_calls a b\<rparr>"
proof -
  define d1 where "d1 = spin_blockSignals SamplerateBox True d"
  have b1: "sb_signalsBlocked (spin SamplerateBox d1)"
    by (simp add: d1_def spin_blockSignals_def)
  define d2 where "d2 = (if a \<noteq> Finite 0 then samplerate_setMinimum a d1 else d1)"
  have d2: "d2 = d\<lparr>samplerateSiSpinBox :=
                     (if a = Finite 0 then samplerateSiSpinBox d
                      else limited ((samplerateSiSpinBox d)\<lparr>sb_minimum := a\<rparr>))
                       \<lparr>sb_signalsBlocked := True\<rparr>,
                   trace := trace d @ (if a = Finite 0 then [] else [SetMinimum SamplerateBox a])\<rparr>"
    unfolding d2_def samplerate_setMinimum_def blocked_change [OF b1]
    by (simp add: d1_def spin_blockSignals_def logged_def)
  have b2: "sb_signalsBlocked (spin SamplerateBox d2)"
    by (simp add: d2)
  define d3 where "d3 = (if b \<noteq> Finite 0 then samplerate_setMaximum b d2 else d2)"
  have d3: "d3 = d\<lparr>samplerateSiSpinBox :=
                     (with_limits a b (samplerateSiSpinBox d))\<lparr>sb_signalsBlocked := True\<rparr>,
                   trace := trace d @ limit_calls a b\<rparr>"
    unfolding d3_def samplerate_setMaximum_def blocked_change [OF b2]
    by (simp add: d2 logged_def with_limits_def limit_calls_def Let_def)
  have "setSamplerateLimits a b d =
          spin_blockSignals SamplerateBox (sb_signalsBlocked (samplerateSiSpinBox d)) d3"
    by (simp add: setSamplerateLimits_def Let_def d1_def d2_def d3_def)
  also have "\<dots> = d\<lparr>samplerateSiSpinBox := with_limits a b (samplerateSiSpinBox d),
       trace := trace d @ limit_calls a b\<rparr>"
  proof -
    have "(with_limits a b (samplerateSiSpinBox d))
            \<lparr>sb_signalsBlocked := sb_signalsBlocked (samplerateSiSpinBox d)\<rparr>
          = with_limits a b (samplerateSiSpinBox d)"
      by (rule SiSpinBox.equality) simp_all
    then show ?thesis
      by (simp add: d3 spin_blockSignals_def)
  qed
  finally show ?thesis .
qed

lemma calc_explicit:
  "calculateSamplerateSteps ar tb d =
     d\<lparr>samplerateSiSpinBox := with_range ar (samplerateSteps d) tb (samplerateSiSpinBox d),
       trace := trace d @ range_calls ar (samplerateSteps d) tb\<rparr>"
  by (simp add: calculateSamplerateSteps_def Let_def setSamplerateLimits_explicit
      with_range_def range_calls_def)

lemma calc_frame [simp]:
  "scope (calculateSamplerateSteps ar tb d) = scope d"
  "connected (calculateSamplerateSteps ar tb d) = connected d"
  "timebaseSiSpinBox (calculateSamplerateSteps ar tb d) = timebaseSiSpinBox d"
  "calfreqSiSpinBox (calculateSamplerateSteps ar tb d) = calfreqSiSpinBox d"
  "formatComboBox (calculateSamplerateSteps ar tb d) = formatComboBox d"
  "timebaseSteps (calculateSamplerateSteps ar tb d) = timebaseSteps d"
  "samplerateSteps (calculateSamplerateSteps ar tb d) = samplerateSteps d"
  by (simp_all add: calc_explicit)

lemma calc_trace:
  "trace (calculateSamplerateSteps ar tb d) = trace d @ range_calls ar (samplerateSteps d) tb"
  by (simp add: calc_explicit)

lemma signals_of_limit_calls [simp]: "signals_of (limit_calls a b) = []"
  by (simp add: limit_calls_def)

lemma writes_of_limit_calls [simp]: "writes_of (limit_calls a b) = []"
  by (simp add: limit_calls_def)

lemma signals_of_range_calls [simp]: "signals_of (range_calls ar xs tb) = []"
  by (simp add: range_calls_def)

lemma writes_of_range_calls [simp]: "writes_of (range_calls ar xs tb) = []"
  by (simp add: range_calls_def)

lemma bound_value [simp]: "bound (b\<lparr>sb_value := x\<rparr>) v = bound b v"
  by (simp add: bound_def Let_def)

lemma limited_value: "limited (b\<lparr>sb_value := v\<rparr>) = b\<lparr>sb_value := bound b v\<rparr>"
  by (simp add: limited_def)

lemma blocked_after_block [simp]:
  "sb_signalsBlocked (samplerateSiSpinBox (spin_blockSignals SamplerateBox True d))"
  "sb_signalsBlocked (timebaseSiSpinBox (spin_blockSignals TimebaseBox True d))"
  "sb_signalsBlocked (calfreqSiSpinBox (spin_blockSignals CalfreqBox True d))"
  by (simp_all add: spin_blockSignals_def)

lemma setCalfreq_explicit:
  "setCalfreq ar v d =
     (bound (calfreqSiSpinBox d) v,
      d\<lparr>calfreqSiSpinBox := (calfreqSiSpinBox d)\<lparr>sb_value := bound (calfreqSiSpinBox d) v\<rparr>,
        trace := trace d @ [SetValue CalfreqBox v]\<rparr>)"
proof -
  define d1 where "d1 = spin_blockSignals CalfreqBox True d"
  have b1: "sb_signalsBlocked (spin CalfreqBox d1)" by (simp add: d1_def)
  have "setCalfreq ar v d =
          (sb_value (spin CalfreqBox (spin_setValue ar CalfreqBox v d1)),
           spin_blockSignals CalfreqBox (sb_signalsBlocked (spin CalfreqBox d))
             (spin_setValue ar CalfreqBox v d1))"
    by (simp add: setCalfreq_def Let_def d1_def)
  then show ?thesis
    unfolding spin_setValue_def blocked_change [OF b1]
    by (simp add: d1_def spin_blockSignals_def logged_def limited_value)
qed

lemma setSamplerate_explicit:
  "setSamplerate ar v d =
     (bound (samplerateSiSpinBox d) v,
      d\<lparr>timebaseSiSpinBox := limited ((timebaseSiSpinBox d)\<lparr>sb_maximum := maxTimebase (scope d)\<rparr>),
        samplerateSiSpinBox := (samplerateSiSpinBox d)\<lparr>sb_value := bound (samplerateSiSpinBox d) v\<rparr>,
        trace := trace d @ [SetMaximum TimebaseBox (maxTimebase (scope d)), SetValue SamplerateBox v]\<rparr>)"
proof -
  define d1 where "d1 = spin_blockSignals TimebaseBox True d"
  have b1: "sb_signalsBlocked (spin TimebaseBox d1)" by (simp add: d1_def)
  define d2 where "d2 = spin_setMaximum ar TimebaseBox (maxTimebase (scope d1)) d1"
  have d2: "d2 = d\<lparr>timebaseSiSpinBox :=
                    (limited ((timebaseSiSpinBox d)\<lparr>sb_maximum := maxTimebase (scope d)\<rparr>))
                      \<lparr>sb_signalsBlocked := True\<rparr>,
                   trace := trace d @ [SetMaximum TimebaseBox (maxTimebase (scope d))]\<rparr>"
    unfolding d2_def spin_setMaximum_def blocked_change [OF b1]
    by (simp add: d1_def spin_blockSignals_def logged_def)
  define d4 where "d4 = spin_blockSignals TimebaseBox (sb_signalsBlocked (spin TimebaseBox d))
                          (spin_blockSignals SamplerateBox True d2)"
  have b4: "sb_signalsBlocked (spin SamplerateBox d4)"
    by (simp add: d4_def spin_blockSignals_def)
  have d4: "d4 = d\<lparr>timebaseSiSpinBox :=
                    limited ((timebaseSiSpinBox d)\<lparr>sb_maximum := maxTimebase (scope d)\<rparr>),
                   samplerateSiSpinBox := (samplerateSiSpinBox d)\<lparr>sb_signalsBlocked := True\<rparr>,
                   trace := trace d @ [SetMaximum TimebaseBox (maxTimebase (scope d))]\<rparr>"
  proof -
    have "(limited ((timebaseSiSpinBox d)\<lparr>sb_maximum := maxTimebase (scope d)\<rparr>))
            \<lparr>sb_signalsBlocked := sb_signalsBlocked (timebaseSiSpinBox d)\<rparr>
          = limited ((timebaseSiSpinBox d)\<lparr>sb_maximum := maxTimebase (scope d)\<rparr>)"
      by (rule SiSpinBox.equality) simp_all
    then show ?thesis
      by (simp add: d4_def d2 spin_blockSignals_def)
  qed
  have "setSamplerate ar v d =
          (sb_value (spin SamplerateBox (spin_setValue ar SamplerateBox v d4)),
           spin_blockSignals SamplerateBox (sb_signalsBlocked (spin SamplerateBox d2))
             (spin_setValue ar SamplerateBox v d4))"
    by (simp add: setSamplerate_def Let_def d1_def d2_def d4_def)
  then show ?thesis
    unfolding spin_setValue_def blocked_change [OF b4]
    by (simp add: d4 d2 spin_blockSignals_def logged_def limited_value)
qed

lemma setFormat_explicit:
  "setFormat TY XY fmt d =
     (if TY \<le> fmt \<and> fmt \<le> XY
      then (fmt, d\<lparr>formatComboBox := (formatComboBox d)\<lparr>cb_currentIndex := fmt\<rparr>,
                   trace := trace d @ [SetCurrentIndex fmt]\<rparr>)
      else (- 1, d))"
  by (simp add: setFormat_def combo_setCurrentIndex_def combo_blockSignals_def logged_def Let_def)

lemma setTimebase_explicit:
  "setTimebase ar tb d =
     (case step_of (timebaseSteps d) (fp_div ar tb (decade ar tb)) of
        Some st \<Rightarrow>
          (bound (timebaseSiSpinBox d) (fp_mul ar (decade ar tb) (Finite st)),
           d\<lparr>timebaseSiSpinBox := (timebaseSiSpinBox d)
                \<lparr>sb_value := bound (timebaseSiSpinBox d) (fp_mul ar (decade ar tb) (Finite st))\<rparr>,
             samplerateSiSpinBox := with_range ar (samplerateSteps d) tb (samplerateSiSpinBox d),
             trace := trace d @ [SetValue TimebaseBox (fp_mul ar (decade ar tb) (Finite st))]
                        @ range_calls ar (samplerateSteps d) tb\<rparr>)
      | None \<Rightarrow>
          (sb_value (timebaseSiSpinBox d),
           d\<lparr>samplerateSiSpinBox := with_range ar (samplerateSteps d) tb (samplerateSiSpinBox d),
             trace := trace d @ range_calls ar (samplerateSteps d) tb\<rparr>))"
proof -
  define d1 where "d1 = spin_blockSignals TimebaseBox True d"
  have b1: "sb_signalsBlocked (spin TimebaseBox d1)" by (simp add: d1_def)
  have ts: "timebaseSteps d1 = timebaseSteps d" by (simp add: d1_def spin_blockSignals_def)
  have sv: "spin_setValue ar TimebaseBox x d1 =
              d\<lparr>timebaseSiSpinBox := (timebaseSiSpinBox d)
                   \<lparr>sb_signalsBlocked := True, sb_value := bound (timebaseSiSpinBox d) x\<rparr>,
                 trace := trace d @ [SetValue TimebaseBox x]\<rparr>" for x
    unfolding spin_setValue_def blocked_change [OF b1]
    by (simp add: d1_def spin_blockSignals_def logged_def limited_value)
  show ?thesis
  proof (cases "step_of (timebaseSteps d) (fp_div ar tb (decade ar tb))")
    case None
    then have "setTimebase ar tb d =
        (sb_value (spin TimebaseBox (calculateSamplerateSteps ar tb d1)),
         spin_blockSignals TimebaseBox (sb_signalsBlocked (spin TimebaseBox d))
           (calculateSamplerateSteps ar tb d1))"
      unfolding setTimebase_def Let_def d1_def [symmetric] ts by simp
    then show ?thesis
      using None by (simp add: calc_explicit d1_def spin_blockSignals_def)
  next
    case (Some st)
    then have "setTimebase ar tb d =
        (sb_value (spin TimebaseBox (calculateSamplerateSteps ar tb
            (spin_setValue ar TimebaseBox (fp_mul ar (decade ar tb) (Finite st)) d1))),
         spin_blockSignals TimebaseBox (sb_signalsBlocked (spin TimebaseBox d))
           (calculateSamplerateSteps ar tb
             (spin_setValue ar TimebaseBox (fp_mul ar (decade ar tb) (Finite st)) d1)))"
      unfolding setTimebase_def Let_def d1_def [symmetric] ts by simp
    then show ?thesis
      using Some by (simp add: sv calc_explicit spin_blockSignals_def)
  qed
qed

subsection \<open>Quiet steps\<close>

lemma quiet_setSamplerate: "quiet d (snd (setSamplerate ar v d))"
  by (simp add: setSamplerate_explicit quiet_def)

lemma quiet_setTimebase: "quiet d (snd (setTimebase ar tb d))"
  by (simp add: setTimebase_explicit quiet_def split: option.split)

lemma quiet_setFormat: "quiet d (snd (setFormat TY XY fmt d))"
  by (simp add: setFormat_explicit quiet_def)

lemma quiet_setCalfreq: "quiet d (snd (setCalfreq ar v d))"
  by (simp add: setCalfreq_explicit quiet_def)

lemma quiet_trans: "quiet a b \<Longrightarrow> quiet b c \<Longrightarrow> quiet a c"
  by (simp add: quiet_def)

lemma quiet_loadSettings: "quiet d (loadSettings ar TY XY d)"
  unfolding loadSettings_def Let_def
  by (rule quiet_trans [OF quiet_trans [OF quiet_trans [OF quiet_setSamplerate quiet_setTimebase]
        quiet_setFormat] quiet_setCalfreq])

subsection \<open>What the blockers are for\<close>

lemma edit_runs_slot:
  assumes "connected d" and "\<not> sb_signalsBlocked (spin w d)"
    and "bound (spin w d) v \<noteq> sb_value (spin w d)"
  shows "spin_setValue ar w v d =
           valueChanged ar w (bound (spin w d) v)
             (logged (SetValue w v) (spin_update w (\<lambda>x. (spin w d)\<lparr>sb_value := bound (spin w d) v\<rparr>) d))"
  using assms by (simp add: spin_setValue_def spin_change_def Let_def limited_value)

lemma edit_reaches_settings:
  assumes "connected d" and "\<not> sb_signalsBlocked (samplerateSiSpinBox d)"
    and "bound (samplerateSiSpinBox d) v \<noteq> sb_value (samplerateSiSpinBox d)"
  shows "scope (spin_setValue ar SamplerateBox v d) =
           (scope d)\<lparr>samplerate := bound (samplerateSiSpinBox d) v\<rparr>"
  using assms
  by (simp add: spin_setValue_def spin_change_def Let_def limited_value samplerateSelected_def
      emit_def store_def logged_def)

lemma limit_reaches_settings:
  assumes "connected d" and "\<not> sb_signalsBlocked (samplerateSiSpinBox d)"
    and "bound ((samplerateSiSpinBox d)\<lparr>sb_maximum := m\<rparr>) (sb_value (samplerateSiSpinBox d))
           \<noteq> sb_value (samplerateSiSpinBox d)"
  shows "scope (samplerate_setMaximum m d) =
           (scope d)\<lparr>samplerate :=
              bound ((samplerateSiSpinBox d)\<lparr>sb_maximum := m\<rparr>) (sb_value (samplerateSiSpinBox d))\<rparr>"
  using assms
  by (simp add: samplerate_setMaximum_def spin_change_def Let_def samplerateSelected_def
      emit_def store_def logged_def)

lemma limit_reaches_settings_example:
  "scope (samplerate_setMaximum (Finite 50000) example_dock) =
     (scope example_dock)\<lparr>samplerate := Finite 50000\<rparr>"
  by (simp add: samplerate_setMaximum_def spin_change_def Let_def samplerateSelected_def
      emit_def store_def logged_def limited_def bound_def example_dock_def)

lemma limit_of_timebase_reaches_settings:
  assumes "connected d" and "\<not> sb_signalsBlocked (timebaseSiSpinBox d)"
    and "bound ((timebaseSiSpinBox d)\<lparr>sb_maximum := m\<rparr>) (sb_value (timebaseSiSpinBox d))
           \<noteq> sb_value (timebaseSiSpinBox d)"
  shows "scope (spin_setMaximum ar TimebaseBox m d) =
           (scope d)\<lparr>timebase :=
              bound ((timebaseSiSpinBox d)\<lparr>sb_maximum := m\<rparr>) (sb_value (timebaseSiSpinBox d))\<rparr>"
  using assms
  by (simp add: spin_setMaximum_def spin_change_def Let_def timebaseSelected_def
      emit_def store_def logged_def)

lemma samplerate_setters_agree:
  "spin_setMinimum ar SamplerateBox m d = samplerate_setMinimum m d"
  "spin_setMaximum ar SamplerateBox m d = samplerate_setMaximum m d"
proof -
  have "valueChanged ar SamplerateBox = samplerateSelected"
    by (rule ext)+ simp
  then show "spin_setMinimum ar SamplerateBox m d = samplerate_setMinimum m d"
    "spin_setMaximum ar SamplerateBox m d = samplerate_setMaximum m d"
    by (simp_all add: spin_setMinimum_def samplerate_setMinimum_def spin_setMaximum_def
        samplerate_setMaximum_def)
qed

subsection \<open>Comparisons of doubles\<close>

lemma dle_Finite [simp]: "dle (Finite a) (Finite b) = (a \<le> b)"
  by (auto simp: dle_def)

lemma dle_NaN [simp]: "dle NaN x = False" "dle x NaN = False"
  by (simp_all add: dle_def)

lemma dlt_NaN [simp]: "dlt NaN x = False" "dlt x NaN = False"
  by (cases x; simp)+

lemma exact_simps [simp]:
  "fp_mul exact = exact_mul" "fp_div exact = exact_div"
  "fp_log10 exact = exact_log10" "fp_pow exact = exact_pow"
  by (simp_all add: exact_def)

subsection \<open>The loop over the samplerates\<close>

lemma fst_rate_fold:
  "fst (foldl (rate_step ar steps tb) mm ixs) =
     last_match steps (\<lambda>i. i < length steps - 1 \<and> dle (fp_mul ar (Finite (steps ! i)) tb) (Finite 10))
       (fst mm) ixs"
proof (induction ixs arbitrary: mm)
  case Nil
  show ?case by (simp add: last_match_def)
next
  case (Cons i ixs)
  have "int i < int (length steps) - 1 \<longleftrightarrow> i < length steps - 1" by auto
  then show ?case
    using Cons.IH [of "rate_step ar steps tb mm i"]
    by (simp add: last_match_def rate_step_def Let_def)
qed

lemma snd_rate_fold:
  "snd (foldl (rate_step ar steps tb) mm ixs) =
     last_match steps (\<lambda>i. 1 \<le> i \<and> dle (fp_mul ar (Finite (steps ! i)) tb) (Finite 1000))
       (snd mm) ixs"
proof (induction ixs arbitrary: mm)
  case Nil
  show ?case by (simp add: last_match_def)
next
  case (Cons i ixs)
  have "i \<noteq> 0 \<longleftrightarrow> 1 \<le> i" by auto
  then show ?case
    using Cons.IH [of "rate_step ar steps tb mm i"]
    by (simp add: last_match_def rate_step_def Let_def)
qed

lemma last_match_Max:
  assumes "sorted steps" and "k \<le> length steps"
  shows "last_match steps P b [0..<k] =
           (if {steps ! i | i. i < k \<and> P i} = {} then b else Max {steps ! i | i. i < k \<and> P i})"
  using assms(2)
proof (induction k)
  case 0
  show ?case by (simp add: last_match_def)
next
  case (Suc k)
  let ?S = "\<lambda>k. {steps ! i | i. i < k \<and> P i}"
  have IH: "last_match steps P b [0..<k] = (if ?S k = {} then b else Max (?S k))"
    using Suc by simp
  have step: "last_match steps P b [0..<Suc k] =
                (if P k then steps ! k else last_match steps P b [0..<k])"
    by (simp add: last_match_def)
  show ?case
  proof (cases "P k")
    case False
    then have eq: "?S (Suc k) = ?S k"
      by (auto simp: less_Suc_eq)
    from False have "last_match steps P b [0..<Suc k] = last_match steps P b [0..<k]"
      by (simp only: step if_False)
    then show ?thesis
      by (simp only: eq IH)
  next
    case True
    have fin: "finite (?S (Suc k))" by simp
    have mem: "steps ! k \<in> ?S (Suc k)" using True by auto
    have ub: "y \<le> steps ! k" if "y \<in> ?S (Suc k)" for y
    proof -
      from that obtain i where "y = steps ! i" "i < Suc k" by auto
      then show ?thesis
        using sorted_nth_mono [OF assms(1), of i k] Suc.prems by simp
    qed
    have top: "Max (?S (Suc k)) = steps ! k"
      by (rule Max_eqI [OF fin ub mem])
    have ne: "(?S (Suc k) = {}) = False" using mem by blast
    from True have "last_match steps P b [0..<Suc k] = steps ! k"
      by (simp only: step if_True)
    then show ?thesis
      by (simp only: ne top if_False)
  qed
qed

lemma samplerate_range_spec:
  assumes "sorted steps"
  shows "samplerate_range ar steps tb = spec_range ar steps tb"
proof -
  have a: "{steps ! i | i. i < length steps \<and>
              (1 \<le> i \<and> dle (fp_mul ar (Finite (steps ! i)) tb) (Finite 1000))}
         = {steps ! i | i. 1 \<le> i \<and> i < length steps \<and>
              dle (fp_mul ar (Finite (steps ! i)) tb) (Finite 1000)}"
    by auto
  have b: "{steps ! i | i. i < length steps \<and>
              (i < length steps - 1 \<and> dle (fp_mul ar (Finite (steps ! i)) tb) (Finite 10))}
         = {steps ! i | i. i < length steps - 1 \<and>
              dle (fp_mul ar (Finite (steps ! i)) tb) (Finite 10)}"
    by auto
  have mx: "snd (foldl (rate_step ar steps tb) (steps ! 0, steps ! 0) [0..<length steps])
              = spec_maximum ar steps tb"
    by (simp only: snd_rate_fold last_match_Max [OF assms order_refl] a spec_maximum_def Let_def snd_conv)
  have mn: "fst (foldl (rate_step ar steps tb) (steps ! 0, steps ! 0) [0..<length steps])
              = spec_minimum ar steps tb"
    by (simp only: fst_rate_fold last_match_Max [OF assms order_refl] b spec_minimum_def Let_def fst_conv)
  have raise: "max a b = (if a < b then b else a)" for a b :: real
    by auto
  show ?thesis
    by (simp only: samplerate_range_def spec_range_def Let_def mx mn raise)
qed

lemma rate_fold_ordered:
  assumes "sorted steps" and "steps \<noteq> []" and "k \<le> length steps"
  shows "fst (foldl (rate_step ar steps tb) (steps ! 0, steps ! 0) [0..<k])
           \<le> snd (foldl (rate_step ar steps tb) (steps ! 0, steps ! 0) [0..<k]) \<and>
         (\<exists>i. (i = 0 \<or> i < k) \<and>
              fst (foldl (rate_step ar steps tb) (steps ! 0, steps ! 0) [0..<k]) = steps ! i)"
  using assms(3)
proof (induction k)
  case 0
  show ?case by simp
next
  case (Suc k)
  define mm where "mm = foldl (rate_step ar steps tb) (steps ! 0, steps ! 0) [0..<k]"
  define p where "p = fp_mul ar (Finite (steps ! k)) tb"
  from Suc have le: "fst mm \<le> snd mm" and ex: "\<exists>i. (i = 0 \<or> i < k) \<and> fst mm = steps ! i"
    by (simp_all add: mm_def)
  from ex obtain i where i: "i = 0 \<or> i < k" "fst mm = steps ! i" by blast
  have k: "k < length steps" using Suc.prems by simp
  have ik: "steps ! i \<le> steps ! k"
    using sorted_nth_mono [OF assms(1), of i k] i(1) k by auto
  have ten: "dle p (Finite 1000)" if "dle p (Finite 10)"
    using that by (cases p) (auto simp: dle_def)
  have run: "foldl (rate_step ar steps tb) (steps ! 0, steps ! 0) [0..<Suc k]
               = rate_step ar steps tb mm k"
    by (simp add: mm_def)
  have rs: "rate_step ar steps tb mm k =
      (if int k < int (length steps) - 1 \<and> dle p (Finite 10) then steps ! k else fst mm,
       if k \<noteq> 0 \<and> dle p (Finite 1000) then steps ! k else snd mm)"
    by (simp add: rate_step_def Let_def p_def)
  show ?case
  proof (cases "k = 0")
    case True
    with i have "fst mm = steps ! 0" by auto
    with le True show ?thesis
      unfolding run rs by auto
  next
    case False
    have "fst (rate_step ar steps tb mm k) \<le> snd (rate_step ar steps tb mm k)"
      unfolding rs using False le ik i(2) ten by auto
    moreover have "\<exists>j. (j = 0 \<or> j < Suc k) \<and> fst (rate_step ar steps tb mm k) = steps ! j"
    proof (cases "int k < int (length steps) - 1 \<and> dle p (Finite 10)")
      case True
      then have "fst (rate_step ar steps tb mm k) = steps ! k"
        unfolding rs by simp
      then show ?thesis by blast
    next
      case False
      then have "fst (rate_step ar steps tb mm k) = steps ! i"
        unfolding rs using i(2) by auto
      moreover have "i = 0 \<or> i < Suc k" using i(1) by auto
      ultimately show ?thesis by blast
    qed
    ultimately show ?thesis unfolding run by blast
  qed
qed

lemma example_range:
  "samplerate_range exact [10000, 20000, 50000, 100000] (Finite (1 / 64)) = (10000, 50000)"
  by (simp add: samplerate_range_def rate_step_def Let_def upt_rec [of 0] upt_rec [of 1]
      upt_rec [of 2] upt_rec [of 3] upt_rec [of 4])

subsection \<open>The exact arithmetic at work\<close>

lemma floor_log10_eqI:
  assumes "10 powr real_of_int k \<le> x" and "x < 10 powr real_of_int (k + 1)"
  shows "0 < x" and "\<lfloor>log 10 x\<rfloor> = k"
proof -
  show pos: "0 < x"
    using assms(1) by (rule less_le_trans [rotated]) simp
  have "real_of_int k \<le> log 10 x"
    using assms(1) pos by (simp add: le_log_iff)
  moreover have "log 10 x < real_of_int (k + 1)"
    using assms(2) pos by (simp add: log_less_iff)
  ultimately show "\<lfloor>log 10 x\<rfloor> = k"
    by linarith
qed

lemma decade_exact_eqI:
  assumes "10 powr real_of_int k \<le> x" and "x < 10 powr real_of_int (k + 1)"
  shows "decade exact (Finite x) = Finite (10 powr real_of_int k)"
  using floor_log10_eqI [OF assms] by (simp add: decade_def)

lemma decade_exact_zero: "decade exact (Finite 0) = Finite 0"
  by (simp add: decade_def)

lemma decade_exact_3s: "decade exact (Finite 3) = Finite 1"
  using decade_exact_eqI [of 0 3] by simp

lemma decade_exact_2000: "decade exact (Finite (1 / 2000)) = Finite (1 / 10000)"
  using decade_exact_eqI [of "-4" "1 / 2000"] by (simp add: powr_minus_divide)

subsection \<open>The grid of the timebase\<close>

lemma step_of_grid:
  assumes "dle (Finite 1) v" and "dlt v (Finite 10)"
  shows "step_of [1, 2, 5, 10] v = Some (Max {s \<in> {1, 2, 5}. dle (Finite s) v})"
proof -
  from assms obtain x where v: "v = Finite x" and x: "1 \<le> x" "x < 10"
    by (cases v) (auto simp: dle_def)
  consider "x < 2" | "2 \<le> x" "x < 5" | "5 \<le> x" by linarith
  then show ?thesis
  proof cases
    case 1
    with x have "{s \<in> {1, 2, 5}. s \<le> x} = {1}" by auto
    with 1 x show ?thesis by (simp add: v)
  next
    case 2
    with x have "{s \<in> {1, 2, 5}. s \<le> x} = {1, 2}" by auto
    with 2 x show ?thesis by (simp add: v)
  next
    case 3
    with x have "{s \<in> {1, 2, 5}. s \<le> x} = {1, 2, 5}" by auto
    with 3 x show ?thesis by (simp add: v)
  qed
qed

lemma bound_within:
  assumes "dle (sb_minimum b) (sb_maximum b)" and "v \<noteq> NaN"
  shows "dle (sb_minimum b) (bound b v)" and "dle (bound b v) (sb_maximum b)"
  using assms
  by (cases "sb_minimum b"; cases "sb_maximum b"; cases v; auto simp: bound_def Let_def dle_def)+

subsection \<open>The constructor and the steps of the device\<close>

lemma spin_change_frame [simp]:
  "sb_signalsBlocked (spin w d) \<or> \<not> connected d \<Longrightarrow>
   connected (spin_change slot e w f d) = connected d"
  "sb_signalsBlocked (spin w d) \<or> \<not> connected d \<Longrightarrow>
   scope (spin_change slot e w f d) = scope d"
  by (auto simp add: spin_change_def Let_def logged_def; cases w; simp)+

lemma setTimebase_frame [simp]:
  "calfreqSiSpinBox (snd (setTimebase ar tb d)) = calfreqSiSpinBox d"
  "timebaseSteps (snd (setTimebase ar tb d)) = timebaseSteps d"
  by (simp_all add: setTimebase_explicit split: option.split)

lemma loadSettings_calfreq:
  "calfreqSiSpinBox (loadSettings ar TY XY d) =
     (calfreqSiSpinBox d)\<lparr>sb_value := bound (calfreqSiSpinBox d) (calfreq (scope d))\<rparr>"
proof -
  define d1 where "d1 = snd (setSamplerate ar (samplerate (scope d)) d)"
  define d2 where "d2 = snd (setTimebase ar (timebase (scope d1)) d1)"
  define d3 where "d3 = snd (setFormat TY XY (format (scope d2)) d2)"
  have s1: "scope d1 = scope d" and c1: "calfreqSiSpinBox d1 = calfreqSiSpinBox d"
    by (simp_all add: d1_def setSamplerate_explicit)
  have s2: "scope d2 = scope d"
    using quiet_setTimebase [of d1 ar "timebase (scope d1)"] by (simp add: d2_def quiet_def s1)
  have c2: "calfreqSiSpinBox d2 = calfreqSiSpinBox d"
    by (simp add: d2_def c1)
  have s3: "scope d3 = scope d" and c3: "calfreqSiSpinBox d3 = calfreqSiSpinBox d"
    by (simp_all add: d3_def setFormat_explicit s2 c2)
  have "loadSettings ar TY XY d = snd (setCalfreq ar (calfreq (scope d3)) d3)"
    by (simp add: loadSettings_def Let_def d1_def d2_def d3_def)
  then show ?thesis
    by (simp add: setCalfreq_explicit s3 c3)
qed

lemma loadSettings_timebaseSteps [simp]:
  "timebaseSteps (loadSettings ar TY XY d) = timebaseSteps d"
  by (simp add: loadSettings_def Let_def setCalfreq_explicit setFormat_explicit
      setSamplerate_explicit)

lemma unconnected_setters:
  "\<not> connected d \<Longrightarrow>
   spin_setMinimum ar w m d =
     logged (SetMinimum w m) (spin_update w (\<lambda>x. limited ((spin w d)\<lparr>sb_minimum := m\<rparr>)) d)"
  "\<not> connected d \<Longrightarrow>
   spin_setMaximum ar w m d =
     logged (SetMaximum w m) (spin_update w (\<lambda>x. limited ((spin w d)\<lparr>sb_maximum := m\<rparr>)) d)"
  by (simp_all add: spin_setMinimum_def spin_setMaximum_def unconnected_change)

lemma blocked_setters:
  "sb_signalsBlocked (spin w d) \<Longrightarrow>
   spin_setMinimum ar w m d =
     logged (SetMinimum w m) (spin_update w (\<lambda>x. limited ((spin w d)\<lparr>sb_minimum := m\<rparr>)) d)"
  "sb_signalsBlocked (spin w d) \<Longrightarrow>
   spin_setMaximum ar w m d =
     logged (SetMaximum w m) (spin_update w (\<lambda>x. limited ((spin w d)\<lparr>sb_maximum := m\<rparr>)) d)"
  by (simp_all add: spin_setMinimum_def spin_setMaximum_def blocked_change)

lemma construct_explicit:
  assumes "calfreqSteps \<noteq> []"
  shows "construct ar TY XY fresh combo settings calfreqSteps =
     Inr ((loadSettings ar TY XY
       \<lparr>scope = settings,
        samplerateSiSpinBox =
          limited ((limited (fresh\<lparr>sb_minimum := Finite 1\<rparr>))\<lparr>sb_maximum := Finite 100000000\<rparr>),
        timebaseSiSpinBox =
          limited ((limited (fresh\<lparr>sb_steps := [1, 2, 5, 10],
              sb_minimum := Finite (1 / 1000000000)\<rparr>))\<lparr>sb_maximum := Finite 1000\<rparr>),
        calfreqSiSpinBox =
          limited ((limited (fresh\<lparr>sb_steps := calfreqSteps,
              sb_minimum := Finite (hd calfreqSteps)\<rparr>))\<lparr>sb_maximum := Finite (last calfreqSteps)\<rparr>),
        formatComboBox = combo, timebaseSteps = [1, 2, 5, 10], samplerateSteps = [],
        connected = False,
        trace = [SetMinimum SamplerateBox (Finite 1), SetMaximum SamplerateBox (Finite 100000000),
                 SetSteps TimebaseBox [1, 2, 5, 10],
                 SetMinimum TimebaseBox (Finite (1 / 1000000000)),
                 SetMaximum TimebaseBox (Finite 1000),
                 SetSteps CalfreqBox calfreqSteps,
                 SetMinimum CalfreqBox (Finite (hd calfreqSteps)),
                 SetMaximum CalfreqBox (Finite (last calfreqSteps))]\<rparr>)\<lparr>connected := True\<rparr>)"
  using assms
  by (simp add: construct_def Let_def unconnected_setters widget_defs)

lemma construct_timebaseSteps:
  "construct ar TY XY fresh combo settings calfreqSteps = Inr d \<Longrightarrow> timebaseSteps d = [1, 2, 5, 10]"
  by (cases "calfreqSteps = []") (auto simp add: construct_explicit, simp add: construct_def)

section \<open>The claims\<close>

text \<open>
  C1. For a timebase \<open>t\<close> whose mantissa \<open>vNorm = t / pow(10, floor(log10 t))\<close>, as
  the arithmetic computes it, lies in [1, 10), \<^verbatim>\<open>setTimebase( t )\<close> calls \<^verbatim>\<open>setValue\<close>
  of the timebase spin-box with \<open>pow(10, floor(log10 t))\<close> times the largest of the
  steps 1, 2, 5 that is at most \<open>vNorm\<close>; the spin-box keeps that value limited to its
  range, and the value the spin-box then has is returned. This holds in every
  arithmetic, whatever its rounding. The list of steps is the one the constructor sets.
\<close>

theorem setTimebase_grid:
  fixes ar :: arith and tb :: double and d :: HorizontalDock
  defines "dec \<equiv> fp_pow ar (Finite 10) (dfloor (fp_log10 ar tb))"
  defines "vNorm \<equiv> fp_div ar tb dec"
  defines "x \<equiv> fp_mul ar dec (Finite (Max {s \<in> {1, 2, 5}. dle (Finite s) vNorm}))"
  assumes "timebaseSteps d = [1, 2, 5, 10]" and "dle (Finite 1) vNorm" and "dlt vNorm (Finite 10)"
  shows "timebaseSiSpinBox (snd (setTimebase ar tb d)) =
           (timebaseSiSpinBox d)\<lparr>sb_value := bound (timebaseSiSpinBox d) x\<rparr> \<and>
         fst (setTimebase ar tb d) = bound (timebaseSiSpinBox d) x \<and>
         trace (snd (setTimebase ar tb d)) =
           trace d @ [SetValue TimebaseBox x] @ range_calls ar (samplerateSteps d) tb"
proof -
  have dec: "decade ar tb = dec"
    by (simp add: decade_def dec_def)
  have "step_of (timebaseSteps d) (fp_div ar tb (decade ar tb)) =
          Some (Max {s \<in> {1, 2, 5}. dle (Finite s) vNorm})"
    using step_of_grid [OF assms(5,6)] assms(4) by (simp add: dec vNorm_def)
  then show ?thesis
    by (simp add: setTimebase_explicit dec x_def)
qed

text \<open>
  Three seconds per division: the logarithm lies between 0 and 1, the decade is 1, the
  mantissa 3 and the product 2, none of them rounded by any arithmetic; the spin-box
  goes from one millisecond to two seconds.
\<close>

theorem setTimebase_grid_witness:
  "timebaseSteps example_dock = [1, 2, 5, 10] \<and>
   fp_pow exact (Finite 10) (dfloor (fp_log10 exact (Finite 3))) = Finite 1 \<and>
   fp_div exact (Finite 3) (Finite 1) = Finite 3 \<and>
   dle (Finite 1) (Finite 3) \<and> dlt (Finite 3) (Finite 10) \<and>
   fp_mul exact (Finite 1) (Finite 2) = Finite 2 \<and>
   sb_value (timebaseSiSpinBox example_dock) = Finite (1 / 1000) \<and>
   timebaseSiSpinBox (snd (setTimebase exact (Finite 3) example_dock)) =
     (timebaseSiSpinBox example_dock)\<lparr>sb_value := Finite 2\<rparr> \<and>
   fst (setTimebase exact (Finite 3) example_dock) = Finite 2"
proof -
  have dec: "fp_pow exact (Finite 10) (dfloor (fp_log10 exact (Finite 3))) = Finite 1"
    using decade_exact_3s by (simp add: decade_def)
  have vn: "fp_div exact (Finite 3) (Finite 1) = Finite 3"
    by simp
  have h1: "timebaseSteps example_dock = [1, 2, 5, 10]" by (simp add: example_dock_def)
  have h2: "dle (Finite 1) (fp_div exact (Finite 3)
               (fp_pow exact (Finite 10) (dfloor (fp_log10 exact (Finite 3)))))"
    unfolding dec vn by simp
  have h3: "dlt (fp_div exact (Finite 3)
               (fp_pow exact (Finite 10) (dfloor (fp_log10 exact (Finite 3))))) (Finite 10)"
    unfolding dec vn by simp
  have m: "Max {s \<in> {1, 2, 5}. dle (Finite s) (Finite 3)} = (2::real)"
  proof -
    have "{s \<in> {1, 2, 5}. dle (Finite s) (Finite 3)} = {1, 2 :: real}"
      by auto
    then show ?thesis by simp
  qed
  have b: "bound (timebaseSiSpinBox example_dock) (Finite 2) = Finite 2"
    by (simp add: bound_def Let_def example_dock_def)
  from setTimebase_grid [OF h1 h2 h3]
  have "timebaseSiSpinBox (snd (setTimebase exact (Finite 3) example_dock)) =
          (timebaseSiSpinBox example_dock)\<lparr>sb_value := Finite 2\<rparr> \<and>
        fst (setTimebase exact (Finite 3) example_dock) = Finite 2"
    unfolding dec vn m using b by simp
  moreover have "sb_value (timebaseSiSpinBox example_dock) = Finite (1 / 1000)"
    by (simp add: example_dock_def)
  ultimately show ?thesis
    using h1 dec vn by simp
qed

text \<open>
  C2. For a sorted list of samplerate steps that is not empty and every timebase,
  \<^verbatim>\<open>calculateSamplerateSteps\<close> hands to \<^verbatim>\<open>setSamplerateLimits\<close> the range as the
  specification words it (\<^const>\<open>spec_range\<close>), the samples per division being the
  rounded product the code computes; for an empty list nothing changes.
\<close>

theorem calculateSamplerateSteps_range:
  assumes "sorted (samplerateSteps d)"
  shows "calculateSamplerateSteps ar tb d =
           (if samplerateSteps d = [] then d
            else setSamplerateLimits (Finite (fst (spec_range ar (samplerateSteps d) tb)))
                   (Finite (snd (spec_range ar (samplerateSteps d) tb))) d)"
  by (simp add: calculateSamplerateSteps_def Let_def samplerate_range_spec [OF assms])

text \<open>
  At 1/64 s per division the four steps give 156.25, 312.5, 781.25 and 1562.5 samples per
  division, all without rounding: the range is 10 kS/s to 50 kS/s, and the maximum and
  the value of the spin-box go from 100 kS/s to 50 kS/s.
\<close>

theorem calculateSamplerateSteps_range_witness:
  "sorted (samplerateSteps example_dock) \<and>
   spec_range exact (samplerateSteps example_dock) (Finite (1 / 64)) = (10000, 50000) \<and>
   calculateSamplerateSteps exact (Finite (1 / 64)) example_dock =
     setSamplerateLimits (Finite 10000) (Finite 50000) example_dock \<and>
   sb_maximum (samplerateSiSpinBox example_dock) = Finite 100000 \<and>
   sb_maximum (samplerateSiSpinBox (calculateSamplerateSteps exact (Finite (1 / 64)) example_dock))
     = Finite 50000 \<and>
   sb_value (samplerateSiSpinBox (calculateSamplerateSteps exact (Finite (1 / 64)) example_dock))
     = Finite 50000"
proof -
  have h: "sorted (samplerateSteps example_dock)"
    by (simp add: example_dock_def)
  have s: "samplerateSteps example_dock = [10000, 20000, 50000, 100000]"
    by (simp add: example_dock_def)
  have r: "spec_range exact [10000, 20000, 50000, 100000] (Finite (1 / 64)) = (10000, 50000)"
    using samplerate_range_spec [OF h, of exact "Finite (1 / 64)"] example_range
    by (simp add: s)
  have c: "calculateSamplerateSteps exact (Finite (1 / 64)) example_dock =
             setSamplerateLimits (Finite 10000) (Finite 50000) example_dock"
    using calculateSamplerateSteps_range [OF h, of exact "Finite (1 / 64)"]
    by (simp add: r s)
  have m: "sb_maximum (samplerateSiSpinBox example_dock) = Finite 100000"
    by (simp add: example_dock_def)
  have v: "sb_value (samplerateSiSpinBox (setSamplerateLimits (Finite 10000) (Finite 50000) example_dock))
             = Finite 50000"
    by (simp add: setSamplerateLimits_explicit with_limits_def Let_def example_dock_def bound_def)
  show ?thesis
    using h r c m v by (simp add: s setSamplerateLimits_explicit)
qed

text \<open>
  C3. An edit of a control stores exactly the edited value in the matching field of the
  shared settings and emits the matching signal with that value:
  \<^verbatim>\<open>samplerateSelected\<close>, \<^verbatim>\<open>timebaseSelected\<close>, \<^verbatim>\<open>formatSelected\<close> and
  \<^verbatim>\<open>calfreqSelected\<close> each change only their own field, and each adds exactly one
  signal, its own, to the signals emitted so far.
\<close>

theorem selected_stores_and_emits:
  "scope (samplerateSelected v d) = (scope d)\<lparr>samplerate := v\<rparr> \<and>
   signals_of (trace (samplerateSelected v d)) = signals_of (trace d) @ [samplerateChanged v] \<and>
   scope (timebaseSelected ar v d) = (scope d)\<lparr>timebase := v\<rparr> \<and>
   signals_of (trace (timebaseSelected ar v d)) = signals_of (trace d) @ [timebaseChanged v] \<and>
   scope (formatSelected i d) = (scope d)\<lparr>format := i\<rparr> \<and>
   signals_of (trace (formatSelected i d)) = signals_of (trace d) @ [formatChanged i] \<and>
   scope (calfreqSelected v d) = (scope d)\<lparr>calfreq := v\<rparr> \<and>
   signals_of (trace (calfreqSelected v d)) = signals_of (trace d) @ [calfreqChanged v]"
  by (simp add: samplerateSelected_def timebaseSelected_def formatSelected_def
      calfreqSelected_def emit_def store_def logged_def calc_trace Let_def)

text \<open>
  C4, as the code has it. \<^verbatim>\<open>setSamplerate\<close> and \<^verbatim>\<open>setCalfreq\<close> limit their argument
  to the range of their spin-box and return the limited value. \<^verbatim>\<open>setTimebase\<close> limits
  the value of the grid to the range of the timebase spin-box and returns it when
  its loop finds a step for the timebase; when it finds none the timebase is ignored:
  the spin-box keeps its value, and that value is returned. \<^verbatim>\<open>setFormat\<close> does not
  limit: a format from TY to XY is selected and returned, any other format is
  rejected, the dock stays as it was and the result is -1.
\<close>

theorem setters_limit_or_reject:
  "fst (setSamplerate ar v d) = bound (samplerateSiSpinBox d) v \<and>
   sb_value (samplerateSiSpinBox (snd (setSamplerate ar v d))) = bound (samplerateSiSpinBox d) v \<and>
   fst (setCalfreq ar v d) = bound (calfreqSiSpinBox d) v \<and>
   sb_value (calfreqSiSpinBox (snd (setCalfreq ar v d))) = bound (calfreqSiSpinBox d) v \<and>
   fst (setTimebase ar tb d) =
     (case step_of (timebaseSteps d)
             (fp_div ar tb (fp_pow ar (Finite 10) (dfloor (fp_log10 ar tb)))) of
        Some st \<Rightarrow> bound (timebaseSiSpinBox d)
                     (fp_mul ar (fp_pow ar (Finite 10) (dfloor (fp_log10 ar tb))) (Finite st))
      | None \<Rightarrow> sb_value (timebaseSiSpinBox d)) \<and>
   sb_value (timebaseSiSpinBox (snd (setTimebase ar tb d))) = fst (setTimebase ar tb d) \<and>
   setFormat TY XY fmt d =
     (if TY \<le> fmt \<and> fmt \<le> XY
      then (fmt, d\<lparr>formatComboBox := (formatComboBox d)\<lparr>cb_currentIndex := fmt\<rparr>,
                   trace := trace d @ [SetCurrentIndex fmt]\<rparr>)
      else (- 1, d))"
proof -
  have "decade ar tb = fp_pow ar (Finite 10) (dfloor (fp_log10 ar tb))"
    by (simp add: decade_def)
  then show ?thesis
    by (simp add: setSamplerate_explicit setCalfreq_explicit setTimebase_explicit
        setFormat_explicit split: option.split)
qed

text \<open>
  C4 as stated fails twice. The format 5 is outside the range from TY = 0 to XY = 1; it
  is not limited to 1, the result is the error value -1 and the dock is unchanged.
  The timebase 0 is below the minimum of the timebase spin-box (10 microseconds); it
  is not limited to that minimum: \<^verbatim>\<open>log10\<close> gives minus infinity, the decade is 0, the
  mantissa 0 / 0 is NaN, no step is found, and the spin-box keeps one millisecond.
\<close>

theorem setters_reject_counterexample:
  "fst (setFormat 0 1 5 example_dock) = - 1 \<and>
   \<not> (0 \<le> fst (setFormat 0 1 5 example_dock) \<and> fst (setFormat 0 1 5 example_dock) \<le> 1) \<and>
   snd (setFormat 0 1 5 example_dock) = example_dock \<and>
   dlt (Finite 0) (sb_minimum (timebaseSiSpinBox example_dock)) \<and>
   sb_value (timebaseSiSpinBox example_dock) = Finite (1 / 1000) \<and>
   sb_minimum (timebaseSiSpinBox example_dock) = Finite (1 / 100000) \<and>
   fst (setTimebase exact (Finite 0) example_dock) = Finite (1 / 1000) \<and>
   timebaseSiSpinBox (snd (setTimebase exact (Finite 0) example_dock)) =
     timebaseSiSpinBox example_dock"
proof -
  have s: "step_of (timebaseSteps example_dock)
             (fp_div exact (Finite 0) (decade exact (Finite 0))) = None"
    by (simp add: decade_exact_zero example_dock_def)
  have t: "setTimebase exact (Finite 0) example_dock =
             (sb_value (timebaseSiSpinBox example_dock),
              example_dock\<lparr>samplerateSiSpinBox :=
                  with_range exact (samplerateSteps example_dock) (Finite 0)
                    (samplerateSiSpinBox example_dock),
                trace := trace example_dock
                  @ range_calls exact (samplerateSteps example_dock) (Finite 0)\<rparr>)"
    unfolding setTimebase_explicit s by simp
  have f: "setFormat 0 1 5 example_dock = (- 1, example_dock)"
    by (simp add: setFormat_explicit)
  have e: "sb_value (timebaseSiSpinBox example_dock) = Finite (1 / 1000)"
    "sb_minimum (timebaseSiSpinBox example_dock) = Finite (1 / 100000)"
    by (simp_all add: example_dock_def)
  show ?thesis
    by (simp add: t f e)
qed

text \<open>
  C5. \<^verbatim>\<open>timebaseSelected( t )\<close> first assigns \<open>t\<close> to the timebase of the shared
  settings, then recalculates the samplerate range from \<open>t\<close> (the setter calls of
  \<^verbatim>\<open>calculateSamplerateSteps\<close>, which leave the samplerate spin-box with the new
  limits), and only then emits \<^verbatim>\<open>timebaseChanged( t )\<close>: the trace grows by these
  effects in this order, and nothing else of the dock changes.
\<close>

theorem timebaseSelected_order:
  "timebaseSelected ar tb d =
     d\<lparr>scope := (scope d)\<lparr>timebase := tb\<rparr>,
       samplerateSiSpinBox := with_range ar (samplerateSteps d) tb (samplerateSiSpinBox d),
       trace := trace d @ [Write (Timebase tb)] @ range_calls ar (samplerateSteps d) tb
                  @ [Emit (timebaseChanged tb)]\<rparr>"
  by (simp add: timebaseSelected_def emit_def store_def logged_def calc_explicit)

text \<open>
  C6. For a list of steps that is not empty, \<^verbatim>\<open>setSamplerateSteps( mode, steps )\<close> stores
  the steps as the samplerate steps of the dock, sets mode and steps of the samplerate
  spin-box, its minimum to the first and its maximum to the last step, the minimum of
  the timebase spin-box to \<open>pow(10, floor(log10(1 / last step)))\<close>, and at last
  recalculates the samplerate limits from the value the timebase spin-box then has.
  Each limit setter leaves the value of its spin-box within the limits.
\<close>

theorem setSamplerateSteps_binds:
  assumes "steps \<noteq> []"
  shows "setSamplerateSteps ar m steps d =
     (let sbox = limited ((limited ((samplerateSiSpinBox d)
                   \<lparr>sb_mode := m, sb_steps := steps, sb_minimum := Finite (hd steps)\<rparr>))
                   \<lparr>sb_maximum := Finite (last steps)\<rparr>);
          least = fp_pow ar (Finite 10)
                    (dfloor (fp_log10 ar (fp_div ar (Finite 1) (Finite (last steps)))));
          tbox = limited ((timebaseSiSpinBox d)\<lparr>sb_minimum := least\<rparr>)
      in Inr (calculateSamplerateSteps ar (sb_value tbox)
           (d\<lparr>samplerateSteps := steps, samplerateSiSpinBox := sbox, timebaseSiSpinBox := tbox,
              trace := trace d @
                [SetMode SamplerateBox m, SetSteps SamplerateBox steps,
                 SetMinimum SamplerateBox (Finite (hd steps)),
                 SetMaximum SamplerateBox (Finite (last steps)),
                 SetMinimum TimebaseBox least]\<rparr>)))"
proof -
  define least where "least = fp_pow ar (Finite 10)
                    (dfloor (fp_log10 ar (fp_div ar (Finite 1) (Finite (last steps)))))"
  define sbox where "sbox = limited ((limited ((samplerateSiSpinBox d)
                   \<lparr>sb_mode := m, sb_steps := steps, sb_minimum := Finite (hd steps)\<rparr>))
                   \<lparr>sb_maximum := Finite (last steps)\<rparr>)"
  define tbox where "tbox = limited ((timebaseSiSpinBox d)\<lparr>sb_minimum := least\<rparr>)"
  define calls where "calls = [SetMode SamplerateBox m, SetSteps SamplerateBox steps,
                 SetMinimum SamplerateBox (Finite (hd steps)),
                 SetMaximum SamplerateBox (Finite (last steps))]"
  define d4 where "d4 = spin_setSteps SamplerateBox steps (spin_setMode SamplerateBox m
                    (spin_blockSignals SamplerateBox True (d\<lparr>samplerateSteps := steps\<rparr>)))"
  have b4: "sb_signalsBlocked (spin SamplerateBox d4)"
    by (simp add: d4_def widget_defs)
  define d5 where "d5 = spin_setMinimum ar SamplerateBox (Finite (hd steps)) d4"
  have d5: "d5 = d\<lparr>samplerateSteps := steps,
                   samplerateSiSpinBox := (limited ((samplerateSiSpinBox d)
                       \<lparr>sb_mode := m, sb_steps := steps, sb_minimum := Finite (hd steps)\<rparr>))
                       \<lparr>sb_signalsBlocked := True\<rparr>,
                   trace := trace d @ [SetMode SamplerateBox m, SetSteps SamplerateBox steps,
                       SetMinimum SamplerateBox (Finite (hd steps))]\<rparr>"
    unfolding d5_def blocked_setters(1) [OF b4]
    by (simp add: d4_def widget_defs limited_def bound_def Let_def)
  have b5: "sb_signalsBlocked (spin SamplerateBox d5)"
    by (simp add: d5)
  define d6 where "d6 = spin_setMaximum ar SamplerateBox (Finite (last steps)) d5"
  have d6: "d6 = d\<lparr>samplerateSteps := steps,
                   samplerateSiSpinBox := sbox\<lparr>sb_signalsBlocked := True\<rparr>,
                   trace := trace d @ calls\<rparr>"
    unfolding d6_def blocked_setters(2) [OF b5]
    by (simp add: d5 sbox_def calls_def logged_def limited_def bound_def Let_def)
  define d7 where "d7 = spin_blockSignals TimebaseBox True d6"
  have b7: "sb_signalsBlocked (spin TimebaseBox d7)"
    by (simp add: d7_def)
  define d8 where "d8 = spin_setMinimum ar TimebaseBox least d7"
  have d8: "d8 = d\<lparr>samplerateSteps := steps,
                   samplerateSiSpinBox := sbox\<lparr>sb_signalsBlocked := True\<rparr>,
                   timebaseSiSpinBox := tbox\<lparr>sb_signalsBlocked := True\<rparr>,
                   trace := trace d @ calls @ [SetMinimum TimebaseBox least]\<rparr>"
    unfolding d8_def blocked_setters(1) [OF b7]
    by (simp add: d7_def d6 tbox_def spin_blockSignals_def logged_def limited_def bound_def Let_def)
  have flags: "sb_signalsBlocked sbox = sb_signalsBlocked (samplerateSiSpinBox d)"
    "sb_signalsBlocked tbox = sb_signalsBlocked (timebaseSiSpinBox d)"
    by (simp_all add: sbox_def tbox_def)
  have own: "b\<lparr>sb_signalsBlocked := True, sb_signalsBlocked := sb_signalsBlocked b\<rparr> = b"
    for b :: SiSpinBox
    by simp
  have wr: "with_range ar steps tb (b\<lparr>sb_signalsBlocked := True\<rparr>) =
              (with_range ar steps tb b)\<lparr>sb_signalsBlocked := True\<rparr>" for tb b
    by (simp add: with_range_def with_limits_def Let_def limited_def bound_def)
  have "setSamplerateSteps ar m steps d =
          Inr (spin_blockSignals SamplerateBox
                (sb_signalsBlocked (spin SamplerateBox (d\<lparr>samplerateSteps := steps\<rparr>)))
                (spin_blockSignals TimebaseBox (sb_signalsBlocked (spin TimebaseBox d6))
                  (calculateSamplerateSteps ar (sb_value (spin TimebaseBox d8)) d8)))"
    unfolding setSamplerateSteps_def Let_def d8_def d7_def d6_def d5_def d4_def least_def decade_def
    by (simp only: assms if_False)
  also have "\<dots> = Inr (calculateSamplerateSteps ar (sb_value tbox)
           (d\<lparr>samplerateSteps := steps, samplerateSiSpinBox := sbox, timebaseSiSpinBox := tbox,
              trace := trace d @ calls @ [SetMinimum TimebaseBox least]\<rparr>))"
  proof -
    have "(with_range ar steps (sb_value tbox) sbox)
            \<lparr>sb_signalsBlocked := sb_signalsBlocked (samplerateSiSpinBox d)\<rparr>
          = with_range ar steps (sb_value tbox) sbox"
      by (rule SiSpinBox.equality) (simp_all add: with_range_def flags)
    moreover have "tbox\<lparr>sb_signalsBlocked := sb_signalsBlocked (timebaseSiSpinBox d)\<rparr> = tbox"
      by (rule SiSpinBox.equality) (simp_all add: flags)
    moreover have "timebaseSiSpinBox d6 = timebaseSiSpinBox d"
      by (simp add: d6)
    ultimately show ?thesis
      by (simp add: d8 calc_explicit spin_blockSignals_def wr)
  qed
  finally show ?thesis
    by (simp add: Let_def sbox_def tbox_def least_def calls_def)
qed

text \<open>
  With the steps 1 kS/s and 2 kS/s on the example dock, in the arithmetic without
  rounding: the minimum of the timebase goes from 10 to 100 microseconds, and at one
  millisecond per division the recalculated range is 2 kS/s to 2 kS/s.
\<close>

theorem setSamplerateSteps_binds_witness:
  "[1000, 2000 :: real] \<noteq> [] \<and>
   fp_pow exact (Finite 10) (dfloor (fp_log10 exact (fp_div exact (Finite 1) (Finite 2000))))
     = Finite (1 / 10000) \<and>
   sb_minimum (timebaseSiSpinBox example_dock) = Finite (1 / 100000) \<and>
   setSamplerateSteps exact 1 [1000, 2000] example_dock =
     Inr (example_dock
       \<lparr>samplerateSteps := [1000, 2000],
        samplerateSiSpinBox := \<lparr>sb_minimum = Finite 2000, sb_maximum = Finite 2000,
           sb_value = Finite 2000, sb_steps = [1000, 2000], sb_mode = 1,
           sb_signalsBlocked = False\<rparr>,
        timebaseSiSpinBox := (timebaseSiSpinBox example_dock)\<lparr>sb_minimum := Finite (1 / 10000)\<rparr>,
        trace := [SetMode SamplerateBox 1, SetSteps SamplerateBox [1000, 2000],
                  SetMinimum SamplerateBox (Finite 1000), SetMaximum SamplerateBox (Finite 2000),
                  SetMinimum TimebaseBox (Finite (1 / 10000)),
                  SetMinimum SamplerateBox (Finite 2000),
                  SetMaximum SamplerateBox (Finite 2000)]\<rparr>)"
proof -
  have h: "[1000, 2000 :: real] \<noteq> []" by simp
  have least: "fp_pow exact (Finite 10)
                 (dfloor (fp_log10 exact (fp_div exact (Finite 1) (Finite 2000)))) = Finite (1 / 10000)"
    using decade_exact_2000 by (simp add: decade_def)
  have r: "samplerate_range exact [1000, 2000] (Finite (1 / 1000)) = (2000, 2000)"
    by (simp add: samplerate_range_def rate_step_def Let_def upt_rec [of 0] upt_rec [of 1]
        upt_rec [of 2])
  have e: "sb_minimum (timebaseSiSpinBox example_dock) = Finite (1 / 100000)"
    by (simp add: example_dock_def)
  have "setSamplerateSteps exact 1 [1000, 2000] example_dock =
     Inr (example_dock
       \<lparr>samplerateSteps := [1000, 2000],
        samplerateSiSpinBox := \<lparr>sb_minimum = Finite 2000, sb_maximum = Finite 2000,
           sb_value = Finite 2000, sb_steps = [1000, 2000], sb_mode = 1,
           sb_signalsBlocked = False\<rparr>,
        timebaseSiSpinBox := (timebaseSiSpinBox example_dock)\<lparr>sb_minimum := Finite (1 / 10000)\<rparr>,
        trace := [SetMode SamplerateBox 1, SetSteps SamplerateBox [1000, 2000],
                  SetMinimum SamplerateBox (Finite 1000), SetMaximum SamplerateBox (Finite 2000),
                  SetMinimum TimebaseBox (Finite (1 / 10000)),
                  SetMinimum SamplerateBox (Finite 2000),
                  SetMaximum SamplerateBox (Finite 2000)]\<rparr>)"
    unfolding setSamplerateSteps_binds [OF h, of exact 1 example_dock]
    using floor_log10_eqI(2) [of "-4" "1 / 2000"]
    by (simp add: Let_def calc_explicit with_range_def with_limits_def range_calls_def
        limit_calls_def limited_def bound_def r example_dock_def powr_minus_divide)
  with h least e show ?thesis by blast
qed

text \<open>
  C7. For calibration steps that are not empty the constructor binds the calibration
  spin-box to them: its list of steps is \<^verbatim>\<open>spec->calfreqSteps\<close>, its minimum the first
  and its maximum the last step. On the constructed dock \<^verbatim>\<open>setCalfreq( f )\<close> gives
  the spin-box the value \<open>f\<close>, which the spin-box limits to its range, and returns
  the value the spin-box then has.
\<close>

theorem calfreq_binding:
  assumes "calfreqSteps \<noteq> []"
  shows "\<exists>d. construct ar TY XY fresh combo settings calfreqSteps = Inr d \<and>
             sb_steps (calfreqSiSpinBox d) = calfreqSteps \<and>
             sb_minimum (calfreqSiSpinBox d) = Finite (hd calfreqSteps) \<and>
             sb_maximum (calfreqSiSpinBox d) = Finite (last calfreqSteps) \<and>
             (\<forall>f. calfreqSiSpinBox (snd (setCalfreq ar f d)) =
                    (calfreqSiSpinBox d)\<lparr>sb_value := bound (calfreqSiSpinBox d) f\<rparr> \<and>
                  fst (setCalfreq ar f d) = sb_value (calfreqSiSpinBox (snd (setCalfreq ar f d))))"
  by (simp add: construct_explicit [OF assms] loadSettings_calfreq setCalfreq_explicit)

theorem calfreq_binding_witness:
  "[50, 100, 1000, 10000 :: real] \<noteq> [] \<and>
   (\<exists>d. construct exact 0 1 (timebaseSiSpinBox example_dock) (formatComboBox example_dock)
           (scope example_dock) [50, 100, 1000, 10000] = Inr d \<and>
        sb_steps (calfreqSiSpinBox d) = [50, 100, 1000, 10000] \<and>
        sb_minimum (calfreqSiSpinBox d) = Finite 50 \<and>
        sb_maximum (calfreqSiSpinBox d) = Finite 10000 \<and>
        fst (setCalfreq exact (Finite 20000) d) = Finite 10000)"
proof -
  have h: "[50, 100, 1000, 10000 :: real] \<noteq> []" by simp
  from calfreq_binding [OF h, of exact 0 1 "timebaseSiSpinBox example_dock"
      "formatComboBox example_dock" "scope example_dock"]
  obtain d where d: "construct exact 0 1 (timebaseSiSpinBox example_dock) (formatComboBox example_dock)
           (scope example_dock) [50, 100, 1000, 10000] = Inr d"
       "sb_steps (calfreqSiSpinBox d) = [50, 100, 1000, 10000]"
       "sb_minimum (calfreqSiSpinBox d) = Finite (hd [50, 100, 1000, 10000])"
       "sb_maximum (calfreqSiSpinBox d) = Finite (last [50, 100, 1000, 10000])"
       "\<And>f. calfreqSiSpinBox (snd (setCalfreq exact f d)) =
                    (calfreqSiSpinBox d)\<lparr>sb_value := bound (calfreqSiSpinBox d) f\<rparr> \<and>
                  fst (setCalfreq exact f d) = sb_value (calfreqSiSpinBox (snd (setCalfreq exact f d)))"
    by blast
  have "fst (setCalfreq exact (Finite 20000) d) = Finite 10000"
    using d(5) [of "Finite 20000"] d(3,4) by (simp add: bound_def Let_def)
  with d(1-4) h show ?thesis by simp
qed

text \<open>
  C8. \<^verbatim>\<open>setSamplerateLimits( minimum, maximum )\<close> leaves a limit of the samplerate
  spin-box as it was when the argument is zero and replaces it by the argument
  otherwise; no setter is called for a zero argument.
\<close>

theorem setSamplerateLimits_zero_keeps:
  "sb_minimum (samplerateSiSpinBox (setSamplerateLimits minimum maximum d)) =
     (if minimum = Finite 0 then sb_minimum (samplerateSiSpinBox d) else minimum) \<and>
   sb_maximum (samplerateSiSpinBox (setSamplerateLimits minimum maximum d)) =
     (if maximum = Finite 0 then sb_maximum (samplerateSiSpinBox d) else maximum) \<and>
   trace (setSamplerateLimits minimum maximum d) =
     trace d @ (if minimum = Finite 0 then [] else [SetMinimum SamplerateBox minimum])
             @ (if maximum = Finite 0 then [] else [SetMaximum SamplerateBox maximum])"
  by (simp add: setSamplerateLimits_explicit limit_calls_def)

text \<open>
  C9. The programmatic setters \<^verbatim>\<open>setSamplerate\<close>, \<^verbatim>\<open>setTimebase\<close>, \<^verbatim>\<open>setFormat\<close>,
  \<^verbatim>\<open>setCalfreq\<close> and \<^verbatim>\<open>loadSettings\<close> leave the shared settings as they were, from
  every state of the dock (connected or not, signals blocked or not): the signals
  of the widget are blocked while its value or a limit of it is set, so no slot runs:
  no field is assigned and no signal of the dock is emitted. Without the blocker a limit that moves the value does
  reach the settings (\<open>limit_reaches_settings\<close>).
\<close>

theorem setters_leave_settings:
  "scope (snd (setSamplerate ar v d)) = scope d \<and>
   scope (snd (setTimebase ar v d)) = scope d \<and>
   scope (snd (setFormat TY XY fmt d)) = scope d \<and>
   scope (snd (setCalfreq ar v d)) = scope d \<and>
   scope (loadSettings ar TY XY d) = scope d \<and>
   writes_of (trace (snd (setSamplerate ar v d))) = writes_of (trace d) \<and>
   writes_of (trace (snd (setTimebase ar v d))) = writes_of (trace d) \<and>
   writes_of (trace (snd (setFormat TY XY fmt d))) = writes_of (trace d) \<and>
   writes_of (trace (snd (setCalfreq ar v d))) = writes_of (trace d) \<and>
   writes_of (trace (loadSettings ar TY XY d)) = writes_of (trace d) \<and>
   signals_of (trace (snd (setSamplerate ar v d))) = signals_of (trace d) \<and>
   signals_of (trace (snd (setTimebase ar v d))) = signals_of (trace d) \<and>
   signals_of (trace (snd (setFormat TY XY fmt d))) = signals_of (trace d) \<and>
   signals_of (trace (snd (setCalfreq ar v d))) = signals_of (trace d) \<and>
   signals_of (trace (loadSettings ar TY XY d)) = signals_of (trace d)"
  using quiet_setSamplerate [of d ar v] quiet_setTimebase [of d ar v]
    quiet_setFormat [of d TY XY fmt] quiet_setCalfreq [of d ar v] quiet_loadSettings [of d ar TY XY]
  by (simp add: quiet_def)

text \<open>
  C10. For a sorted list of samplerate steps that is not empty and every timebase, the
  range derived by \<^verbatim>\<open>calculateSamplerateSteps\<close> has its minimum at most its maximum:
  raising the minimum to \<^verbatim>\<open>qMin( 10e3, max )\<close> never lifts it above the maximum.
\<close>

theorem samplerate_range_ordered:
  assumes "steps \<noteq> []" and "sorted steps"
  shows "fst (samplerate_range ar steps tb) \<le> snd (samplerate_range ar steps tb)"
  using rate_fold_ordered [OF assms(2) assms(1) order_refl, of ar tb]
  by (simp add: samplerate_range_def Let_def)

theorem samplerate_range_ordered_witness:
  "[10000, 20000, 50000, 100000 :: real] \<noteq> [] \<and> sorted [10000, 20000, 50000, 100000 :: real] \<and>
   fst (samplerate_range exact [10000, 20000, 50000, 100000] (Finite (1 / 1000)))
     \<le> snd (samplerate_range exact [10000, 20000, 50000, 100000] (Finite (1 / 1000)))"
  using samplerate_range_ordered [of "[10000, 20000, 50000, 100000]" exact "Finite (1 / 1000)"]
  by simp

end
